theory Spec2Isabelle
  imports Main "HOL-Library.Sublist" "HOL-Library.Multiset"
begin

section \<open>JavaScript strings\<close>

text \<open>
  The workshop app (\<^verbatim>\<open>packages/workshop-app/utils/apps.server.ts\<close>) works on
  directory names and paths. A JavaScript string is modelled as a \<^typ>\<open>string\<close>
  whose characters are the code units below 256; the only line terminators among
  them are line feed and carriage return. The string methods the source calls are
  given their source names.
\<close>

definition startsWith :: "string \<Rightarrow> string \<Rightarrow> bool" where
  "startsWith s p = prefix p s"

definition endsWith :: "string \<Rightarrow> string \<Rightarrow> bool" where
  "endsWith s p = prefix (rev p) (rev s)"

fun includesStr :: "string \<Rightarrow> string \<Rightarrow> bool" where
  "includesStr [] p = (p = [])"
| "includesStr (c # cs) p = (prefix p (c # cs) \<or> includesStr cs p)"

text \<open>\<^verbatim>\<open>s.replace(p, r)\<close> with a string pattern replaces the first occurrence only.\<close>

fun replaceFirst :: "string \<Rightarrow> string \<Rightarrow> string \<Rightarrow> string" where
  "replaceFirst p r [] = (if p = [] then r else [])"
| "replaceFirst p r (c # cs) =
     (if prefix p (c # cs) then r @ drop (length p) (c # cs)
      else c # replaceFirst p r cs)"

text \<open>
  \<^verbatim>\<open>s.replaceAll(p, r)\<close> scans from the left and continues behind each occurrence it
  replaced. The source only calls it with the pattern \<^verbatim>\<open>__sep__\<close>; the pattern is
  taken to be non-empty, and on an empty pattern the model leaves the string as it is.
\<close>

function replaceAll :: "string \<Rightarrow> string \<Rightarrow> string \<Rightarrow> string" where
  "replaceAll p r [] = []"
| "replaceAll p r (c # cs) =
     (if p \<noteq> [] \<and> prefix p (c # cs) then r @ replaceAll p r (drop (length p) (c # cs))
      else c # replaceAll p r cs)"
  by pat_completeness auto
termination
  by (relation "measure (\<lambda>(p, r, s). length s)") auto

text \<open>\<^verbatim>\<open>s.split(sep)\<close> for a one-character separator, and \<^verbatim>\<open>xs.join(sep)\<close>.\<close>

fun split :: "char \<Rightarrow> string \<Rightarrow> string list" where
  "split sep [] = [[]]"
| "split sep (c # cs) =
     (if c = sep then [] # split sep cs
      else (case split sep cs of [] \<Rightarrow> [[c]] | w # ws \<Rightarrow> (c # w) # ws))"

fun join :: "string \<Rightarrow> string list \<Rightarrow> string" where
  "join sep [] = []"
| "join sep [w] = w"
| "join sep (w # v # ws) = w @ sep @ join sep (v # ws)"

definition isDigit :: "char \<Rightarrow> bool" where
  "isDigit c = (c \<in> set ''0123456789'')"

definition digitValue :: "char \<Rightarrow> nat" where
  "digitValue c = of_char c - 48"

text \<open>
  \<^verbatim>\<open>Number(s)\<close> on a string of decimal digits. The model reads the digits as a
  natural number; a JavaScript number holds that value exactly below \<open>2^53\<close>, which
  covers every digit string of at most fifteen characters. Directory names are at
  most 255 characters long, so the value is always finite.
\<close>

definition Number :: "string \<Rightarrow> nat" where
  "Number ds = foldl (\<lambda>n c. 10 * n + digitValue c) 0 ds"

text \<open>\<^verbatim>\<open>n.toString()\<close> for a natural number, and \<^verbatim>\<open>s.padStart(n, '0')\<close>.\<close>

definition digitChar :: "nat \<Rightarrow> char" where
  "digitChar d = ''0123456789'' ! d"

fun toString :: "nat \<Rightarrow> string" where
  "toString n = (if n < 10 then [digitChar n] else toString (n div 10) @ [digitChar (n mod 10)])"

declare toString.simps [simp del]

definition padStart :: "nat \<Rightarrow> char \<Rightarrow> string \<Rightarrow> string" where
  "padStart n c s = replicate (n - length s) c @ s"

section \<open>POSIX paths of Node's \<^verbatim>\<open>path\<close> module\<close>

text \<open>
  The source imports \<^verbatim>\<open>path\<close> from Node. The model is the POSIX variant:
  \<^verbatim>\<open>path.sep\<close> is \<^verbatim>\<open>/\<close>. \<^verbatim>\<open>path.normalize\<close> drops empty and \<^verbatim>\<open>.\<close> segments,
  resolves \<^verbatim>\<open>..\<close> against the segment before it, and keeps a leading and a trailing
  separator; \<^verbatim>\<open>path.join\<close> joins its non-empty arguments with the separator and
  normalizes the result.
\<close>

definition sep :: string where
  "sep = ''/''"

definition isAbsolute :: "string \<Rightarrow> bool" where
  "isAbsolute p = (case p of [] \<Rightarrow> False | c # _ \<Rightarrow> c = CHR ''/'')"

fun normalizeSegments :: "bool \<Rightarrow> string list \<Rightarrow> string list \<Rightarrow> string list" where
  "normalizeSegments allowAboveRoot res [] = res"
| "normalizeSegments allowAboveRoot res (s # ss) =
     (if s = [] \<or> s = ''.'' then normalizeSegments allowAboveRoot res ss
      else if s = ''..'' then
        (if res \<noteq> [] \<and> last res \<noteq> ''..'' then normalizeSegments allowAboveRoot (butlast res) ss
         else if allowAboveRoot then normalizeSegments allowAboveRoot (res @ [''..'']) ss
         else normalizeSegments allowAboveRoot res ss)
      else normalizeSegments allowAboveRoot (res @ [s]) ss)"

definition path_normalize :: "string \<Rightarrow> string" where
  "path_normalize p =
     (if p = [] then ''.''
      else
        let abs = isAbsolute p;
            trailingSeparator = (last p = CHR ''/'');
            s = join ''/'' (normalizeSegments (\<not> abs) [] (split CHR ''/'' p))
        in if s = [] then (if abs then ''/'' else if trailingSeparator then ''./'' else ''.'')
           else (if abs then ''/'' else []) @ s @ (if trailingSeparator then ''/'' else []))"

definition path_join :: "string list \<Rightarrow> string" where
  "path_join args =
     (let joined = join ''/'' (filter (\<lambda>a. a \<noteq> []) args)
      in if joined = [] then ''.'' else path_normalize joined)"

text \<open>
  \<^verbatim>\<open>path.basename\<close> skips trailing separators and returns the last segment;
  \<^verbatim>\<open>path.dirname\<close> returns what stands before the separator in front of it.
\<close>

definition basename :: "string \<Rightarrow> string" where
  "basename p =
     rev (takeWhile (\<lambda>c. c \<noteq> CHR ''/'') (dropWhile (\<lambda>c. c = CHR ''/'') (rev p)))"

definition dirname :: "string \<Rightarrow> string" where
  "dirname p =
     (case p of
        [] \<Rightarrow> ''.''
      | c # cs \<Rightarrow>
          (case dropWhile (\<lambda>c. c \<noteq> CHR ''/'') (dropWhile (\<lambda>c. c = CHR ''/'') (rev cs)) of
             [] \<Rightarrow> (if c = CHR ''/'' then ''/'' else ''.'')
           | _ # r \<Rightarrow> (if c = CHR ''/'' \<and> r = [] then ''//'' else c # rev r)))"

section \<open>Errors\<close>

text \<open>
  Every \<^verbatim>\<open>throw\<close> of the source, and every rejection of a collaborator it awaits,
  is a value of this type; a function that may throw returns \<open>error + 'a\<close>.
\<close>

datatype error =
    NonAbsolutePath string
  | CannotIdentifyStepNumber string
  | CannotReadPackageJson string
  | TypeError string
  | MissingProperty string
  | FsError string
  | CompileError string
  | ProcessError string

section \<open>The step-directory classifier\<close>

text \<open>
  \<^verbatim>\<open>getAppDirInfo\<close> matches a directory name against the regular expression
  \<^verbatim>\<open>/^(?<stepNumber>\d+)\.(problem|solution)(\.(?<subtitle>.*))?$/\<close>.
  \<^verbatim>\<open>\d\<close> is an ASCII digit, and \<^verbatim>\<open>.\<close> (without the \<^verbatim>\<open>s\<close> flag) is any character
  but a line terminator. \<open>appDirRegex_exec\<close> is \<^verbatim>\<open>regex.exec\<close>: the groups
  \<^verbatim>\<open>stepNumber\<close>, the second group and \<^verbatim>\<open>subtitle\<close> of a match (the last one
  \<open>None\<close> when the optional group took no part), and \<open>None\<close> without a match.
\<close>

definition isLineTerminator :: "char \<Rightarrow> bool" where
  "isLineTerminator c = (c = CHR 0x0A \<or> c = CHR 0x0D)"

definition appDirRegex_exec :: "string \<Rightarrow> (string \<times> string \<times> string option) option" where
  "appDirRegex_exec appDir =
     (let digits = takeWhile isDigit appDir;
          afterDigits = dropWhile isDigit appDir
      in if digits = [] then None
         else (case afterDigits of
            [] \<Rightarrow> None
          | dot # afterDot \<Rightarrow>
              if dot \<noteq> CHR ''.'' then None
              else (case (if prefix ''problem'' afterDot then Some ''problem''
                          else if prefix ''solution'' afterDot then Some ''solution''
                          else None) of
                 None \<Rightarrow> None
               | Some ty \<Rightarrow>
                   (case drop (length ty) afterDot of
                      [] \<Rightarrow> Some (digits, ty, None)
                    | dot2 # rest \<Rightarrow>
                        if dot2 = CHR ''.'' \<and> \<not> list_ex isLineTerminator rest
                        then Some (digits, ty, Some rest)
                        else None))))"

datatype step_type = problem | solution

record app_dir_info =
  info_stepNumber :: nat
  info_type :: step_type
  subtitle :: "string option"

text \<open>
  \<^verbatim>\<open>getAppDirInfo\<close>: \<open>Inr None\<close> is \<^verbatim>\<open>null\<close> (the name does not match; the source
  logs it), \<open>Inl\<close> is the \<^verbatim>\<open>throw\<close> for a step number that is \<^verbatim>\<open>0\<close>.
\<close>

definition getAppDirInfo :: "string \<Rightarrow> error + app_dir_info option" where
  "getAppDirInfo appDir =
     (case appDirRegex_exec appDir of
        None \<Rightarrow> Inr None
      | Some (stepNumberString, ty, sub) \<Rightarrow>
          let stepNumber = Number stepNumberString
          in if stepNumber = 0 then Inl (CannotIdentifyStepNumber appDir)
             else Inr (Some \<lparr> info_stepNumber = stepNumber,
                              info_type = (if ty = ''problem'' then problem else solution),
                              subtitle = sub \<rparr>))"

text \<open>\<^verbatim>\<open>extractExerciseNumber\<close> matches \<^verbatim>\<open>/^(?<number>\d+)\./\<close>.\<close>

definition extractExerciseNumber :: "string \<Rightarrow> nat option" where
  "extractExerciseNumber dir =
     (let digits = takeWhile isDigit dir
      in if digits \<noteq> [] \<and> prefix ''.'' (dropWhile isDigit dir) then Some (Number digits)
         else None)"

section \<open>App identity\<close>

text \<open>
  \<^verbatim>\<open>getAppName\<close> and \<^verbatim>\<open>getFullPathFromAppName\<close>. The module constant
  \<^verbatim>\<open>workshopRoot\<close> (the environment variable \<^verbatim>\<open>KCDSHOP_CONTEXT_CWD\<close> or the
  working directory of the process) is the first argument.
\<close>

definition getAppName :: "string \<Rightarrow> string \<Rightarrow> string" where
  "getAppName workshopRoot fullPath =
     (let relativePath = replaceFirst (workshopRoot @ sep) [] fullPath
      in join ''__sep__'' (split CHR ''/'' relativePath))"

definition getFullPathFromAppName :: "string \<Rightarrow> string \<Rightarrow> string" where
  "getFullPathFromAppName workshopRoot appName =
     (let relativePath = replaceAll ''__sep__'' sep appName
      in path_join [workshopRoot, relativePath])"

section \<open>The staleness map and cache entries\<close>

text \<open>
  \<^verbatim>\<open>modifiedTimes\<close> is a process-wide \<^verbatim>\<open>Map<string, number>\<close>; its values and the
  \<^verbatim>\<open>createdTime\<close> of a cache entry are readings of \<^verbatim>\<open>Date.now()\<close>, milliseconds
  since the epoch, modelled as natural numbers. The clock reading is an argument.
  A cache entry of the \<^verbatim>\<open>cachified\<close> library holds a value and its metadata; an
  absent \<^verbatim>\<open>ttl\<close> means that the entry never expires.
\<close>

type_synonym modified_times = "string \<rightharpoonup> nat"

record cache_metadata =
  createdTime :: nat
  ttl :: "nat option"
  swr :: "nat option"

record 'v cache_entry =
  metadata :: cache_metadata
  "value" :: 'v

definition setModifiedTimesForDir :: "nat \<Rightarrow> string \<Rightarrow> modified_times \<Rightarrow> modified_times" where
  "setModifiedTimesForDir now dir modifiedTimes = modifiedTimes(dir \<mapsto> now)"

text \<open>
  \<^verbatim>\<open>getForceFreshForDir\<close> returns \<^verbatim>\<open>true\<close> (\<open>Some True\<close>) or \<^verbatim>\<open>undefined\<close>
  (\<open>None\<close>), or throws. A recorded time of \<^verbatim>\<open>0\<close> is falsy in JavaScript.
\<close>

definition getForceFreshForDir ::
  "modified_times \<Rightarrow> string \<Rightarrow> 'v cache_entry option \<Rightarrow> error + bool option" where
  "getForceFreshForDir modifiedTimes dir cacheEntry =
     (if \<not> isAbsolute dir then Inl (NonAbsolutePath dir)
      else (case cacheEntry of
         None \<Rightarrow> Inr (Some True)
       | Some entry \<Rightarrow>
           (case modifiedTimes dir of
              None \<Rightarrow> Inr None
            | Some modifiedTime \<Rightarrow>
                if modifiedTime = 0 then Inr None
                else if modifiedTime > createdTime (metadata entry) then Inr (Some True)
                else Inr None)))"

text \<open>
  Modelled from the spec: \<^verbatim>\<open>cachified\<close> of \<^verbatim>\<open>cache.server.ts\<close>, which is not among
  the sources. Section 4.3 of the specification: if \<^verbatim>\<open>forceFresh\<close> is true, or no
  entry exists, or the entry is older than \<^verbatim>\<open>ttl + swr\<close>, the value is computed,
  stored with \<^verbatim>\<open>createdTime = now()\<close> and returned, and a failure of the computation
  propagates; an entry within its \<^verbatim>\<open>ttl\<close> is returned without a computation; an entry
  between \<^verbatim>\<open>ttl\<close> and \<^verbatim>\<open>ttl + swr\<close> is returned and refreshed in the background.
  The result says which of the three happened.
\<close>

datatype 'v fetched = Computed 'v | Cached 'v | Revalidating 'v

type_synonym 'v cache = "string \<rightharpoonup> 'v cache_entry"

definition cachified ::
  "'v cache \<Rightarrow> string \<Rightarrow> nat \<Rightarrow> nat \<Rightarrow> bool option \<Rightarrow> nat \<Rightarrow> (error + 'v)
     \<Rightarrow> error + ('v fetched \<times> 'v cache)" where
  "cachified cache key ttl_ms swr_ms forceFresh now getFreshValue =
     (let compute =
            (case getFreshValue of
               Inl e \<Rightarrow> Inl e
             | Inr v \<Rightarrow>
                 Inr (Computed v,
                      cache(key \<mapsto> \<lparr> metadata = \<lparr> createdTime = now, ttl = Some ttl_ms,
                                                  swr = Some swr_ms \<rparr>,
                                     value = v \<rparr>)))
      in if forceFresh = Some True then compute
         else (case cache key of
            None \<Rightarrow> compute
          | Some entry \<Rightarrow>
              let age = now - createdTime (metadata entry);
                  entryTtl = ttl (metadata entry);
                  entrySwr = (case swr (metadata entry) of None \<Rightarrow> 0 | Some s \<Rightarrow> s)
              in (case entryTtl of
                    None \<Rightarrow> Inr (Cached (value entry), cache)
                  | Some t \<Rightarrow>
                      if age \<le> t then Inr (Cached (value entry), cache)
                      else if age \<le> t + entrySwr then Inr (Revalidating (value entry), cache)
                      else compute)))"

text \<open>
  The call that \<^verbatim>\<open>getProblemApps\<close>, \<^verbatim>\<open>getSolutionApps\<close>, \<^verbatim>\<open>getExampleApps\<close> and
  \<^verbatim>\<open>getPlaygroundApp\<close> make for a directory:
  \<^verbatim>\<open>cachified({key, cache, ttl: 1000 * 60 * 60 * 24, forceFresh:
  getForceFreshForDir(dir, await cache.get(key)), getFreshValue})\<close>.
  No \<^verbatim>\<open>swr\<close> is passed. The argument \<^verbatim>\<open>forceFresh\<close> is evaluated first, so its
  exception leaves the function before \<^verbatim>\<open>cachified\<close> runs.
\<close>

definition cachifiedForDir ::
  "modified_times \<Rightarrow> 'v cache \<Rightarrow> string \<Rightarrow> string \<Rightarrow> nat \<Rightarrow> (error + 'v)
     \<Rightarrow> error + ('v fetched \<times> 'v cache)" where
  "cachifiedForDir modifiedTimes cache key dir now getFreshValue =
     (case getForceFreshForDir modifiedTimes dir (cache key) of
        Inl e \<Rightarrow> Inl e
      | Inr forceFresh \<Rightarrow>
          cachified cache key (1000 * 60 * 60 * 24) 0 forceFresh now getFreshValue)"

section \<open>Apps\<close>

text \<open>
  The types \<^verbatim>\<open>BaseApp\<close>, \<^verbatim>\<open>ProblemApp\<close>, \<^verbatim>\<open>SolutionApp\<close>, \<^verbatim>\<open>ExampleApp\<close> and
  \<^verbatim>\<open>PlaygroundApp\<close>; the field \<^verbatim>\<open>type\<close> of the union \<^verbatim>\<open>App\<close> is the constructor.
  For a value of these types the shape test \<^verbatim>\<open>isApp\<close> holds, so \<^verbatim>\<open>isProblemApp\<close>
  and its siblings test the constructor.
\<close>

datatype json =
    JNull
  | JBool bool
  | JNumber int
  | JString string
  | JArray "json list"
  | JObject "(string \<times> json) list"

datatype test_info =
    TestBrowser string "string list"
  | TestScript json
  | TestNone

datatype dev_info =
    DevBrowser string
  | DevScript nat string

record base_app =
  name :: string
  title :: string
  dirName :: string
  fullPath :: string
  relativePath :: string
  instructionsCode :: "string option"
  epicVideoEmbeds :: "string list option"
  test :: test_info
  dev :: dev_info

record exercise_step_app = base_app +
  exerciseNumber :: nat
  stepNumber :: nat

record problem_app = exercise_step_app +
  solutionName :: "string option"

record solution_app = exercise_step_app +
  problemName :: "string option"

record playground_app = base_app +
  appName :: string

datatype app =
    ProblemApp problem_app
  | SolutionApp solution_app
  | ExampleApp base_app
  | PlaygroundApp playground_app

fun isProblemApp :: "app \<Rightarrow> bool" where
  "isProblemApp (ProblemApp _) = True"
| "isProblemApp _ = False"

fun isSolutionApp :: "app \<Rightarrow> bool" where
  "isSolutionApp (SolutionApp _) = True"
| "isSolutionApp _ = False"

fun isPlaygroundApp :: "app \<Rightarrow> bool" where
  "isPlaygroundApp (PlaygroundApp _) = True"
| "isPlaygroundApp _ = False"

fun isExampleApp :: "app \<Rightarrow> bool" where
  "isExampleApp (ExampleApp _) = True"
| "isExampleApp _ = False"

fun app_name :: "app \<Rightarrow> string" where
  "app_name (ProblemApp a) = name a"
| "app_name (SolutionApp a) = name a"
| "app_name (ExampleApp a) = name a"
| "app_name (PlaygroundApp a) = name a"

text \<open>
  \<^verbatim>\<open>a.exerciseNumber\<close> and \<^verbatim>\<open>a.stepNumber\<close> are read only where \<^verbatim>\<open>a\<close> is a
  problem or a solution app.
\<close>

fun app_exerciseNumber :: "app \<Rightarrow> int" where
  "app_exerciseNumber (ProblemApp a) = int (exerciseNumber a)"
| "app_exerciseNumber (SolutionApp a) = int (exerciseNumber a)"
| "app_exerciseNumber _ = 0"

fun app_stepNumber :: "app \<Rightarrow> int" where
  "app_stepNumber (ProblemApp a) = int (stepNumber a)"
| "app_stepNumber (SolutionApp a) = int (stepNumber a)"
| "app_stepNumber _ = 0"

section \<open>Collaborators\<close>

text \<open>
  What the module reads from outside is a field of the environment: the file system
  (\<^verbatim>\<open>exists\<close>, \<^verbatim>\<open>fs.promises.readdir\<close>, reading and parsing a JSON file), the
  \<^verbatim>\<open>glob\<close> library, the MDX compiler, the staleness map, the workshop root, and the engine's
  \<^verbatim>\<open>String.prototype.localeCompare\<close> and \<^verbatim>\<open>Array.prototype.sort\<close>. A rejected
  promise of a collaborator is an \<open>Inl\<close>.
\<close>

record compiled_mdx =
  code :: string
  mdx_title :: "string option"
  mdx_epicVideoEmbeds :: "string list"

record env =
  workshopRoot :: string
  fs_exists :: "string \<Rightarrow> bool"
  fs_readdir :: "string \<Rightarrow> error + string list"
  readJson :: "string \<Rightarrow> error + json"
  compileMdx :: "string \<Rightarrow> error + compiled_mdx"
  glob :: "string \<Rightarrow> string \<Rightarrow> string list"
  modifiedTimes :: modified_times
  localeCompare :: "string \<Rightarrow> string \<Rightarrow> int"
  array_sort :: "(app \<Rightarrow> app \<Rightarrow> int) \<Rightarrow> app list \<Rightarrow> app list"

text \<open>
  \<^verbatim>\<open>getPkgProp\<close> of \<^verbatim>\<open>utils.ts\<close>. \<^verbatim>\<open>value[p]\<close> throws a \<^verbatim>\<open>TypeError\<close> on
  \<^verbatim>\<open>null\<close>, looks the key up in an object, and is \<^verbatim>\<open>undefined\<close> (\<open>None\<close>) on
  any other JSON value for the property names the module asks for
  (\<^verbatim>\<open>kcd-workshop\<close>, \<^verbatim>\<open>scripts\<close>, \<^verbatim>\<open>test\<close>, \<^verbatim>\<open>dev\<close>).
\<close>

datatype pkg_error = PropertyOfNull | PropertyNotFound

fun getProperty :: "json \<Rightarrow> string \<Rightarrow> pkg_error + json option" where
  "getProperty JNull p = Inl PropertyOfNull"
| "getProperty (JObject kvs) p = Inr (map_of kvs p)"
| "getProperty v p = Inr None"

fun getPropPath :: "json \<Rightarrow> string list \<Rightarrow> pkg_error + json option" where
  "getPropPath v [] = Inr (Some v)"
| "getPropPath v (p # ps) =
     (case getProperty v p of
        Inl e \<Rightarrow> Inl e
      | Inr None \<Rightarrow> Inr None
      | Inr (Some v') \<Rightarrow> getPropPath v' ps)"

definition getPkgProp :: "env \<Rightarrow> string \<Rightarrow> string \<Rightarrow> json option \<Rightarrow> error + json option" where
  "getPkgProp e fullPath' prop defaultValue =
     (case readJson e (path_join [fullPath', ''package.json'']) of
        Inl _ \<Rightarrow> Inl (CannotReadPackageJson fullPath')
      | Inr pkg \<Rightarrow>
          (case getPropPath pkg (split CHR ''.'' prop) of
             Inl _ \<Rightarrow> Inl (TypeError prop)
           | Inr v \<Rightarrow>
               if v = None \<and> defaultValue = None then Inl (MissingProperty prop)
               else if v = None \<or> v = Some JNull then Inr defaultValue
               else Inr v))"

text \<open>The truthiness of a value that may be \<^verbatim>\<open>undefined\<close>.\<close>

fun truthy :: "json option \<Rightarrow> bool" where
  "truthy None = False"
| "truthy (Some JNull) = False"
| "truthy (Some (JBool b)) = b"
| "truthy (Some (JNumber n)) = (n \<noteq> 0)"
| "truthy (Some (JString s)) = (s \<noteq> [])"
| "truthy (Some (JArray _)) = True"
| "truthy (Some (JObject _)) = True"

text \<open>
  \<^verbatim>\<open>compileMdxIfExists\<close> turns backslashes into slashes and catches the compiler's
  exception.
\<close>

definition compileMdxIfExists :: "env \<Rightarrow> string \<Rightarrow> compiled_mdx option" where
  "compileMdxIfExists e filepath =
     (let filepath = map (\<lambda>c. if c = CHR 0x5C then CHR ''/'' else c) filepath
      in if fs_exists e filepath
         then (case compileMdx e filepath of Inl _ \<Rightarrow> None | Inr compiled \<Rightarrow> Some compiled)
         else None)"

definition playgroundAppNameInfoPath :: "env \<Rightarrow> string" where
  "playgroundAppNameInfoPath e =
     path_join [workshopRoot e, ''node_modules'', ''.cache'', ''kcdshop'', ''playground.json'']"

text \<open>
  \<^verbatim>\<open>getPlaygroundAppName\<close>: \<^verbatim>\<open>null\<close> when the file is missing, cannot be read or
  parsed, or holds no string under \<^verbatim>\<open>appName\<close>.
\<close>

definition getPlaygroundAppName :: "env \<Rightarrow> string option" where
  "getPlaygroundAppName e =
     (if \<not> fs_exists e (playgroundAppNameInfoPath e) then None
      else (case readJson e (playgroundAppNameInfoPath e) of
         Inl _ \<Rightarrow> None
       | Inr j \<Rightarrow>
           (case getProperty j ''appName'' of
              Inr (Some (JString appName')) \<Rightarrow> Some appName'
            | _ \<Rightarrow> None)))"

section \<open>The comparator of the catalog\<close>

text \<open>
  The function passed to \<^verbatim>\<open>.sort\<close> in \<^verbatim>\<open>getApps\<close>, branch by branch. The first
  argument is \<^verbatim>\<open>String.prototype.localeCompare\<close>. A positive result asks for
  \<open>a\<close> behind \<open>b\<close>, a negative one for \<open>a\<close> before \<open>b\<close>.
\<close>

definition compareApps :: "(string \<Rightarrow> string \<Rightarrow> int) \<Rightarrow> app \<Rightarrow> app \<Rightarrow> int" where
  "compareApps lc a b =
     (if isPlaygroundApp a then
        (if isPlaygroundApp b then lc (app_name a) (app_name b) else 1)
      else if isPlaygroundApp b then 1
      else if isExampleApp a then
        (if isExampleApp b then lc (app_name a) (app_name b) else 1)
      else if isExampleApp b then - 1
      else if isProblemApp a = isProblemApp b then
        (if app_exerciseNumber a = app_exerciseNumber b
         then app_stepNumber a - app_stepNumber b
         else app_exerciseNumber a - app_exerciseNumber b)
      else if isProblemApp a then
        (if app_exerciseNumber a = app_exerciseNumber b
         then (if app_stepNumber a \<le> app_stepNumber b then 1 else - 1)
         else (if app_exerciseNumber a \<le> app_exerciseNumber b then 1 else - 1))
      else if isSolutionApp a then
        (if app_exerciseNumber a = app_exerciseNumber b
         then (if app_stepNumber a < app_stepNumber b then - 1 else 1)
         else (if app_exerciseNumber a < app_exerciseNumber b then - 1 else 1))
      else 0)"

section \<open>Sibling search\<close>

text \<open>
  \<^verbatim>\<open>findSolutionDir\<close> and \<^verbatim>\<open>findProblemDir\<close>. For a path that ends in
  \<^verbatim>\<open>playground\<close> they call themselves on the path of the app the playground was
  set from; nothing bounds that recursion, so the result is an option and \<open>None\<close>
  is a call that never returns. Local names that clash with a record field carry a
  prime.
\<close>

partial_function (option) findSolutionDir :: "env \<Rightarrow> string \<Rightarrow> (error + string option) option" where
  "findSolutionDir e fullPath' =
     (let dirName' = basename fullPath'
      in if includesStr dirName' ''.problem'' then
           (case getAppDirInfo dirName' of
              Inl err \<Rightarrow> Some (Inl err)
            | Inr None \<Rightarrow> Some (Inr None)
            | Inr (Some info) \<Rightarrow>
                let paddedStepNumber = padStart 2 CHR ''0'' (toString (info_stepNumber info));
                    parentDir = dirname fullPath'
                in (case fs_readdir e parentDir of
                      Inl err \<Rightarrow> Some (Inl err)
                    | Inr siblingDirs \<Rightarrow>
                        (case find (\<lambda>dir. startsWith dir (paddedStepNumber @ ''.solution''))
                                siblingDirs of
                           Some solutionDir \<Rightarrow> Some (Inr (Some (path_join [parentDir, solutionDir])))
                         | None \<Rightarrow> Some (Inr None))))
         else if endsWith fullPath' ''playground'' then
           (case getPlaygroundAppName e of
              Some appName' \<Rightarrow>
                if appName' \<noteq> []
                then findSolutionDir e (getFullPathFromAppName (workshopRoot e) appName')
                else Some (Inr None)
            | None \<Rightarrow> Some (Inr None))
         else Some (Inr None))"

declare findSolutionDir.simps [code]

partial_function (option) findProblemDir :: "env \<Rightarrow> string \<Rightarrow> (error + string option) option" where
  "findProblemDir e fullPath' =
     (let dirName' = basename fullPath'
      in if includesStr dirName' ''.solution'' then
           (case getAppDirInfo dirName' of
              Inl err \<Rightarrow> Some (Inl err)
            | Inr None \<Rightarrow> Some (Inr None)
            | Inr (Some info) \<Rightarrow>
                let paddedStepNumber = padStart 2 CHR ''0'' (toString (info_stepNumber info));
                    parentDir = dirname fullPath'
                in (case fs_readdir e parentDir of
                      Inl err \<Rightarrow> Some (Inl err)
                    | Inr siblingDirs \<Rightarrow>
                        (case find (\<lambda>dir. endsWith dir ''problem'' \<and> includesStr dir paddedStepNumber)
                                siblingDirs of
                           Some problemDir \<Rightarrow> Some (Inr (Some (path_join [parentDir, problemDir])))
                         | None \<Rightarrow> Some (Inr None))))
         else if endsWith fullPath' ''playground'' then
           (case getPlaygroundAppName e of
              Some appName' \<Rightarrow>
                if appName' \<noteq> []
                then findProblemDir e (getFullPathFromAppName (workshopRoot e) appName')
                else Some (Inr None)
            | None \<Rightarrow> Some (Inr None))
         else Some (Inr None))"

declare findProblemDir.simps [code]

section \<open>App builders\<close>

text \<open>
  A builder returns \<open>None\<close> when it never returns, \<open>Some (Inl err)\<close> when it
  throws, and \<open>Some (Inr app)\<close> otherwise, where \<open>app\<close> is \<open>None\<close> for
  \<^verbatim>\<open>null\<close>.
\<close>

definition getTestInfo :: "env \<Rightarrow> string \<Rightarrow> (error + test_info) option" where
  "getTestInfo e fullPath' =
     (let hasPkgJson = fs_exists e (path_join [fullPath', ''package.json''])
      in (case (if hasPkgJson
                then getPkgProp e fullPath' (join ''.'' [''kcd-workshop.scripts'', ''test''])
                       (Some (JString []))
                else Inr (Some JNull)) of
            Inl err \<Rightarrow> Some (Inl err)
          | Inr testScript \<Rightarrow>
              (case (if truthy testScript then testScript else None) of
                 Some script \<Rightarrow> Some (Inr (TestScript script))
               | None \<Rightarrow>
                   (case findSolutionDir e fullPath' of
                      None \<Rightarrow> None
                    | Some (Inl err) \<Rightarrow> Some (Inl err)
                    | Some (Inr solutionDir) \<Rightarrow>
                        let testAppFullPath =
                              (case solutionDir of Some d \<Rightarrow> d | None \<Rightarrow> fullPath')
                        in (case fs_readdir e testAppFullPath of
                              Inl err \<Rightarrow> Some (Inl err)
                            | Inr dirList \<Rightarrow>
                                let testFiles = filter (\<lambda>item. includesStr item ''.test.'') dirList
                                in if testFiles \<noteq> []
                                   then Some (Inr (TestBrowser
                                          (''/app/'' @ getAppName (workshopRoot e) fullPath' @ ''/test/'')
                                          testFiles))
                                   else Some (Inr TestNone))))))"

definition getDevInfo :: "env \<Rightarrow> string \<Rightarrow> nat \<Rightarrow> error + dev_info" where
  "getDevInfo e fullPath' portNumber =
     (let hasPkgJson = fs_exists e (path_join [fullPath', ''package.json''])
      in (case (if hasPkgJson
                then getPkgProp e fullPath' (join ''.'' [''scripts'', ''dev'']) (Some (JString []))
                else Inr (Some (JBool False))) of
            Inl err \<Rightarrow> Inl err
          | Inr devScript \<Rightarrow>
              if truthy devScript
              then Inr (DevScript portNumber (''http://localhost:'' @ toString portNumber @ ''/''))
              else Inr (DevBrowser (''/app/'' @ getAppName (workshopRoot e) fullPath' @ ''/''))))"

text \<open>
  \<^verbatim>\<open>Promise.all\<close> of two promises rejects as soon as one of them rejects, also
  when the other one never settles.
\<close>

fun promiseAll :: "(error + 'a) option \<Rightarrow> (error + 'b) option \<Rightarrow> (error + 'a \<times> 'b) option" where
  "promiseAll (Some (Inl err)) _ = Some (Inl err)"
| "promiseAll _ (Some (Inl err)) = Some (Inl err)"
| "promiseAll None _ = None"
| "promiseAll _ None = None"
| "promiseAll (Some (Inr a)) (Some (Inr b)) = Some (Inr (a, b))"

text \<open>The port expressions of the builders.\<close>

definition problemPortNumber :: "nat \<Rightarrow> nat \<Rightarrow> nat" where
  "problemPortNumber exerciseNumber' stepNumber' = 6000 + (exerciseNumber' - 1) * 10 + stepNumber'"

definition solutionPortNumber :: "nat \<Rightarrow> nat \<Rightarrow> nat" where
  "solutionPortNumber exerciseNumber' stepNumber' = 7000 + (exerciseNumber' - 1) * 10 + stepNumber'"

definition examplePortNumber :: "nat \<Rightarrow> nat" where
  "examplePortNumber index = 8000 + index"

definition playgroundPortNumber :: nat where
  "playgroundPortNumber = 4000"

definition nameIfDir :: "env \<Rightarrow> string option \<Rightarrow> string option" where
  "nameIfDir e dir =
     (case dir of
        None \<Rightarrow> None
      | Some d \<Rightarrow> if d = [] then None else Some (getAppName (workshopRoot e) d))"

definition getProblemAppFromPath :: "env \<Rightarrow> string \<Rightarrow> (error + problem_app option) option" where
  "getProblemAppFromPath e fullPath' =
     (let dirName' = basename fullPath';
          parentDirName = basename (dirname fullPath')
      in (case extractExerciseNumber parentDirName of
            None \<Rightarrow> Some (Inr None)
          | Some exerciseNumber' \<Rightarrow>
              if exerciseNumber' = 0 then Some (Inr None)
              else
                let name' = getAppName (workshopRoot e) fullPath'
                in (case getAppDirInfo dirName' of
                      Inl err \<Rightarrow> Some (Inl err)
                    | Inr None \<Rightarrow> Some (Inr None)
                    | Inr (Some info) \<Rightarrow>
                        let stepNumber' = info_stepNumber info;
                            portNumber = problemPortNumber exerciseNumber' stepNumber';
                            compiledReadme = compileMdxIfExists e (path_join [fullPath', ''README.mdx''])
                        in (case findSolutionDir e fullPath' of
                              None \<Rightarrow> None
                            | Some (Inl err) \<Rightarrow> Some (Inl err)
                            | Some (Inr solutionDir) \<Rightarrow>
                                (case promiseAll (getTestInfo e fullPath')
                                        (Some (getDevInfo e fullPath' portNumber)) of
                                   None \<Rightarrow> None
                                 | Some (Inl err) \<Rightarrow> Some (Inl err)
                                 | Some (Inr (test', dev')) \<Rightarrow>
                                     Some (Inr (Some
                                       \<lparr> name = name',
                                         title = (case Option.bind compiledReadme mdx_title of
                                                    Some t \<Rightarrow> t | None \<Rightarrow> name'),
                                         dirName = dirName',
                                         fullPath = fullPath',
                                         relativePath =
                                           replaceFirst (workshopRoot e @ sep) [] fullPath',
                                         instructionsCode = map_option code compiledReadme,
                                         epicVideoEmbeds =
                                           map_option mdx_epicVideoEmbeds compiledReadme,
                                         test = test',
                                         dev = dev',
                                         exerciseNumber = exerciseNumber',
                                         stepNumber = stepNumber',
                                         solutionName = nameIfDir e solutionDir \<rparr>)))))))"

definition getSolutionAppFromPath :: "env \<Rightarrow> string \<Rightarrow> (error + solution_app option) option" where
  "getSolutionAppFromPath e fullPath' =
     (let dirName' = basename fullPath';
          parentDirName = basename (dirname fullPath')
      in (case extractExerciseNumber parentDirName of
            None \<Rightarrow> Some (Inr None)
          | Some exerciseNumber' \<Rightarrow>
              if exerciseNumber' = 0 then Some (Inr None)
              else
                let name' = getAppName (workshopRoot e) fullPath'
                in (case getAppDirInfo dirName' of
                      Inl err \<Rightarrow> Some (Inl err)
                    | Inr None \<Rightarrow> Some (Inr None)
                    | Inr (Some info) \<Rightarrow>
                        let stepNumber' = info_stepNumber info;
                            portNumber = solutionPortNumber exerciseNumber' stepNumber';
                            compiledReadme = compileMdxIfExists e (path_join [fullPath', ''README.mdx''])
                        in (case findProblemDir e fullPath' of
                              None \<Rightarrow> None
                            | Some (Inl err) \<Rightarrow> Some (Inl err)
                            | Some (Inr problemDir) \<Rightarrow>
                                (case promiseAll (getTestInfo e fullPath')
                                        (Some (getDevInfo e fullPath' portNumber)) of
                                   None \<Rightarrow> None
                                 | Some (Inl err) \<Rightarrow> Some (Inl err)
                                 | Some (Inr (test', dev')) \<Rightarrow>
                                     Some (Inr (Some
                                       \<lparr> name = name',
                                         title = (case Option.bind compiledReadme mdx_title of
                                                    Some t \<Rightarrow> t | None \<Rightarrow> name'),
                                         dirName = dirName',
                                         fullPath = fullPath',
                                         relativePath =
                                           replaceFirst (workshopRoot e @ sep) [] fullPath',
                                         instructionsCode = map_option code compiledReadme,
                                         epicVideoEmbeds =
                                           map_option mdx_epicVideoEmbeds compiledReadme,
                                         test = test',
                                         dev = dev',
                                         exerciseNumber = exerciseNumber',
                                         stepNumber = stepNumber',
                                         problemName = nameIfDir e problemDir \<rparr>)))))))"

definition getExampleAppFromPath :: "env \<Rightarrow> string \<Rightarrow> nat \<Rightarrow> (error + base_app) option" where
  "getExampleAppFromPath e fullPath' index =
     (let dirName' = basename fullPath';
          compiledReadme = compileMdxIfExists e (path_join [fullPath', ''README.mdx'']);
          name' = getAppName (workshopRoot e) fullPath';
          portNumber = examplePortNumber index
      in (case getTestInfo e fullPath' of
            None \<Rightarrow> None
          | Some (Inl err) \<Rightarrow> Some (Inl err)
          | Some (Inr test') \<Rightarrow>
              (case getDevInfo e fullPath' portNumber of
                 Inl err \<Rightarrow> Some (Inl err)
               | Inr dev' \<Rightarrow>
                   Some (Inr
                     \<lparr> name = name',
                       title = (case Option.bind compiledReadme mdx_title of
                                  Some t \<Rightarrow> t | None \<Rightarrow> name'),
                       dirName = dirName',
                       fullPath = fullPath',
                       relativePath = replaceFirst (workshopRoot e @ sep) [] fullPath',
                       instructionsCode = map_option code compiledReadme,
                       epicVideoEmbeds = map_option mdx_epicVideoEmbeds compiledReadme,
                       test = test',
                       dev = dev' \<rparr>))))"

text \<open>
  The scans model the first scan of a process: no cache holds an entry, so every
  \<^verbatim>\<open>cachified\<close> call evaluates \<^verbatim>\<open>getFreshValue\<close> and returns its value. The
  argument \<^verbatim>\<open>forceFresh: getForceFreshForDir(dir, await cache.get(key))\<close> is still
  evaluated, with no cache entry, since it can throw. The \<^verbatim>\<open>.catch\<close> on the
  builder's promise turns its exception into \<^verbatim>\<open>null\<close>.
\<close>

definition catchToNull :: "(error + 'a option) option \<Rightarrow> 'a option option" where
  "catchToNull r =
     (case r of
        None \<Rightarrow> None
      | Some (Inl _) \<Rightarrow> Some None
      | Some (Inr a) \<Rightarrow> Some a)"

definition noEntry :: "unit cache_entry option" where
  "noEntry = None"

definition getPlaygroundApp :: "env \<Rightarrow> (error + playground_app option) option" where
  "getPlaygroundApp e =
     (let playgroundDir = path_join [workshopRoot e, ''playground''];
          appName' = getPlaygroundAppName e
      in (case getForceFreshForDir (modifiedTimes e) playgroundDir noEntry of
            Inl err \<Rightarrow> Some (Inl err)
          | Inr _ \<Rightarrow>
              map_option Inr (catchToNull
                (if \<not> fs_exists e playgroundDir then Some (Inr None)
                 else (case (case appName' of None \<Rightarrow> None
                             | Some n \<Rightarrow> if n = [] then None else Some n) of
                    None \<Rightarrow> Some (Inr None)
                  | Some appName' \<Rightarrow>
                      let dirName' = basename playgroundDir;
                          name' = getAppName (workshopRoot e) playgroundDir;
                          portNumber = playgroundPortNumber;
                          compiledReadme =
                            compileMdxIfExists e (path_join [playgroundDir, ''README.mdx''])
                      in (case promiseAll (getTestInfo e playgroundDir)
                                (Some (getDevInfo e playgroundDir portNumber)) of
                            None \<Rightarrow> None
                          | Some (Inl err) \<Rightarrow> Some (Inl err)
                          | Some (Inr (test', dev')) \<Rightarrow>
                              Some (Inr (Some
                                \<lparr> name = name',
                                  title = (case Option.bind compiledReadme mdx_title of
                                             Some t \<Rightarrow> t | None \<Rightarrow> name'),
                                  dirName = dirName',
                                  fullPath = playgroundDir,
                                  relativePath =
                                    replaceFirst (workshopRoot e @ sep) [] playgroundDir,
                                  instructionsCode = map_option code compiledReadme,
                                  epicVideoEmbeds =
                                    map_option mdx_epicVideoEmbeds compiledReadme,
                                  test = test',
                                  dev = dev',
                                  appName = appName' \<rparr>))))))))"

text \<open>\<^verbatim>\<open>xs.indexOf(x)\<close> for an element of the array.\<close>

definition indexOf :: "'a list \<Rightarrow> 'a \<Rightarrow> nat" where
  "indexOf xs x = length (takeWhile (\<lambda>y. y \<noteq> x) xs)"

fun exampleAppsLoop :: "env \<Rightarrow> string list \<Rightarrow> string list \<Rightarrow> base_app list \<Rightarrow> (error + base_app list) option" where
  "exampleAppsLoop e exampleDirs [] exampleApps = Some (Inr exampleApps)"
| "exampleAppsLoop e exampleDirs (exampleDir # rest) exampleApps =
     (let index = indexOf exampleDirs exampleDir
      in (case getForceFreshForDir (modifiedTimes e) exampleDir noEntry of
            Inl err \<Rightarrow> Some (Inl err)
          | Inr _ \<Rightarrow>
              (case catchToNull (map_option (map_sum id Some)
                      (getExampleAppFromPath e exampleDir index)) of
                 None \<Rightarrow> None
               | Some None \<Rightarrow> exampleAppsLoop e exampleDirs rest exampleApps
               | Some (Some exampleApp) \<Rightarrow>
                   exampleAppsLoop e exampleDirs rest (exampleApps @ [exampleApp]))))"

definition exampleDirs :: "env \<Rightarrow> string list" where
  "exampleDirs e =
     (let examplesDir = path_join [workshopRoot e, ''examples'']
      in map (\<lambda>p. path_join [examplesDir, p]) (glob e ''*'' examplesDir))"

definition getExampleApps :: "env \<Rightarrow> (error + base_app list) option" where
  "getExampleApps e = exampleAppsLoop e (exampleDirs e) (exampleDirs e) []"

fun solutionAppsLoop :: "env \<Rightarrow> string list \<Rightarrow> solution_app list \<Rightarrow> (error + solution_app list) option" where
  "solutionAppsLoop e [] solutionApps = Some (Inr solutionApps)"
| "solutionAppsLoop e (solutionDir # rest) solutionApps =
     (case getForceFreshForDir (modifiedTimes e) solutionDir noEntry of
        Inl err \<Rightarrow> Some (Inl err)
      | Inr _ \<Rightarrow>
          (case catchToNull (getSolutionAppFromPath e solutionDir) of
             None \<Rightarrow> None
           | Some None \<Rightarrow> solutionAppsLoop e rest solutionApps
           | Some (Some solutionApp) \<Rightarrow> solutionAppsLoop e rest (solutionApps @ [solutionApp])))"

definition solutionDirs :: "env \<Rightarrow> string list" where
  "solutionDirs e =
     (let exercisesDir = path_join [workshopRoot e, ''exercises'']
      in map (\<lambda>p. path_join [exercisesDir, p]) (glob e ''**/*solution*'' exercisesDir))"

definition getSolutionApps :: "env \<Rightarrow> (error + solution_app list) option" where
  "getSolutionApps e = solutionAppsLoop e (solutionDirs e) []"

fun problemAppsLoop :: "env \<Rightarrow> string list \<Rightarrow> problem_app list \<Rightarrow> (error + problem_app list) option" where
  "problemAppsLoop e [] problemApps = Some (Inr problemApps)"
| "problemAppsLoop e (problemDir # rest) problemApps =
     (case getForceFreshForDir (modifiedTimes e) problemDir noEntry of
        Inl err \<Rightarrow> Some (Inl err)
      | Inr _ \<Rightarrow>
          (case catchToNull (getProblemAppFromPath e problemDir) of
             None \<Rightarrow> None
           | Some None \<Rightarrow> problemAppsLoop e rest problemApps
           | Some (Some problemApp) \<Rightarrow> problemAppsLoop e rest (problemApps @ [problemApp])))"

definition problemDirs :: "env \<Rightarrow> string list" where
  "problemDirs e =
     (let exercisesDir = path_join [workshopRoot e, ''exercises'']
      in map (\<lambda>p. path_join [exercisesDir, p]) (glob e ''**/*problem*'' exercisesDir))"

definition getProblemApps :: "env \<Rightarrow> (error + problem_app list) option" where
  "getProblemApps e = problemAppsLoop e (problemDirs e) []"

section \<open>The catalog\<close>

text \<open>
  \<^verbatim>\<open>getApps\<close> is the \<^verbatim>\<open>getFreshValue\<close> of the catalog: the four scans one after
  the other, \<^verbatim>\<open>.filter(Boolean)\<close> on
  \<^verbatim>\<open>[playgroundApp, ...problemApps, ...solutionApps, ...exampleApps]\<close>, and the
  engine's sort with the comparator.
\<close>

definition getApps :: "env \<Rightarrow> (error + app list) option" where
  "getApps e =
     (case getPlaygroundApp e of
        None \<Rightarrow> None
      | Some (Inl err) \<Rightarrow> Some (Inl err)
      | Some (Inr playgroundApp) \<Rightarrow>
          (case getProblemApps e of
             None \<Rightarrow> None
           | Some (Inl err) \<Rightarrow> Some (Inl err)
           | Some (Inr problemApps) \<Rightarrow>
               (case getSolutionApps e of
                  None \<Rightarrow> None
                | Some (Inl err) \<Rightarrow> Some (Inl err)
                | Some (Inr solutionApps) \<Rightarrow>
                    (case getExampleApps e of
                       None \<Rightarrow> None
                     | Some (Inl err) \<Rightarrow> Some (Inl err)
                     | Some (Inr exampleApps) \<Rightarrow>
                         Some (Inr (array_sort e (compareApps (localeCompare e))
                           (List.map_filter (\<lambda>a. a)
                              ([map_option PlaygroundApp playgroundApp]
                               @ map (\<lambda>a. Some (ProblemApp a)) problemApps
                               @ map (\<lambda>a. Some (SolutionApp a)) solutionApps
                               @ map (\<lambda>a. Some (ExampleApp a)) exampleApps))))))))"

section \<open>The pattern of a step directory\<close>


section \<open>Normalized paths\<close>

text \<open>
  The paths the scans produce: an absolute path is a separator followed by segments
  joined with the separator, where a segment is non-empty, holds no separator and is
  neither \<^verbatim>\<open>.\<close> nor \<^verbatim>\<open>..\<close>.
\<close>

definition validSegment :: "string \<Rightarrow> bool" where
  "validSegment s = (s \<noteq> [] \<and> CHR ''/'' \<notin> set s \<and> s \<noteq> ''.'' \<and> s \<noteq> ''..'')"

definition absolutePath :: "string list \<Rightarrow> string" where
  "absolutePath segments = ''/'' @ join ''/'' segments"

section \<open>What a scan is expected to return\<close>

text \<open>
  The apps a build contributes to its scan: the app when the builder returned one,
  nothing when it returned \<^verbatim>\<open>null\<close> or threw.
\<close>

definition built :: "(error + 'a option) option \<Rightarrow> 'a list" where
  "built r = (case r of Some (Inr (Some a)) \<Rightarrow> [a] | _ \<Rightarrow> [])"

definition builtExample :: "(error + 'a) option \<Rightarrow> 'a list" where
  "builtExample r = (case r of Some (Inr a) \<Rightarrow> [a] | _ \<Rightarrow> [])"

text \<open>
  The sibling searches return when the playground was not set, or was set from an
  app whose path does not end in \<^verbatim>\<open>playground\<close>.
\<close>

definition playgroundSourceSettles :: "env \<Rightarrow> bool" where
  "playgroundSourceSettles e =
     (case getPlaygroundAppName e of
        None \<Rightarrow> True
      | Some n \<Rightarrow> n = [] \<or> \<not> endsWith (getFullPathFromAppName (workshopRoot e) n) ''playground'')"

text \<open>
  The catalog before sorting: the playground app if there is one, then what the builds
  of the problem, solution and example directories contribute, in scan order.
\<close>

definition catalogOf :: "env \<Rightarrow> playground_app option \<Rightarrow> app list" where
  "catalogOf e playgroundApp =
     (case playgroundApp of None \<Rightarrow> [] | Some a \<Rightarrow> [PlaygroundApp a])
     @ map ProblemApp (concat (map (\<lambda>d. built (getProblemAppFromPath e d)) (problemDirs e)))
     @ map SolutionApp (concat (map (\<lambda>d. built (getSolutionAppFromPath e d)) (solutionDirs e)))
     @ map ExampleApp (concat (map (\<lambda>d. builtExample (getExampleAppFromPath e d (indexOf (exampleDirs e) d)))
                                   (exampleDirs e)))"


section \<open>A small workshop\<close>

text \<open>
  A workshop whose root is \<^verbatim>\<open>/w\<close>, for evaluating the scans: two exercises
  (\<^verbatim>\<open>01.intro\<close> with the steps \<^verbatim>\<open>00.problem\<close>, \<^verbatim>\<open>01.problem.foo\<close>,
  \<^verbatim>\<open>01.solution.foo\<close> and \<^verbatim>\<open>11.problem\<close>; \<^verbatim>\<open>02.next\<close> with \<^verbatim>\<open>01.problem\<close> and
  \<^verbatim>\<open>01.solution\<close>), the examples \<^verbatim>\<open>b\<close> and \<^verbatim>\<open>a\<close>, and a playground set from
  \<^verbatim>\<open>exercises/02.next/01.problem\<close>. Every app has a \<^verbatim>\<open>package.json\<close> with a
  \<^verbatim>\<open>dev\<close> script; the one of example \<^verbatim>\<open>b\<close> cannot be read. The engine's sort is an
  insertion sort, and strings are compared by their code units.
\<close>

fun insertBy :: "('a \<Rightarrow> 'a \<Rightarrow> int) \<Rightarrow> 'a \<Rightarrow> 'a list \<Rightarrow> 'a list" where
  "insertBy cmp x [] = [x]"
| "insertBy cmp x (y # ys) = (if cmp x y < 0 then x # y # ys else y # insertBy cmp x ys)"

definition insertionSort :: "('a \<Rightarrow> 'a \<Rightarrow> int) \<Rightarrow> 'a list \<Rightarrow> 'a list" where
  "insertionSort cmp xs = foldl (\<lambda>sorted x. insertBy cmp x sorted) [] xs"

definition compareCodeUnits :: "string \<Rightarrow> string \<Rightarrow> int" where
  "compareCodeUnits a b =
     (if a = b then 0
      else if lexordp (\<lambda>c d. (of_char c :: nat) < of_char d) a b then - 1
      else 1)"

definition workshop :: env where
  "workshop =
     \<lparr> workshopRoot = ''/w'',
       fs_exists = (\<lambda>p. endsWith p ''/package.json'' \<or> p = ''/w/playground''
                      \<or> p = ''/w/node_modules/.cache/kcdshop/playground.json''),
       fs_readdir = (\<lambda>d.
          if d = ''/w/exercises/01.intro''
          then Inr [''00.problem'', ''01.problem.foo'', ''01.solution.foo'', ''11.problem'']
          else if d = ''/w/exercises/02.next'' then Inr [''01.problem'', ''01.solution'']
          else Inr []),
       readJson = (\<lambda>p.
          if p = ''/w/node_modules/.cache/kcdshop/playground.json''
          then Inr (JObject [(''appName'', JString ''exercises__sep__02.next__sep__01.problem'')])
          else if p = ''/w/examples/b/package.json'' then Inl (FsError p)
          else Inr (JObject [(''scripts'', JObject [(''dev'', JString ''vite'')])])),
       compileMdx = (\<lambda>p. Inl (CompileError p)),
       glob = (\<lambda>pattern cwd.
          if pattern = ''**/*problem*''
          then [''01.intro/00.problem'', ''01.intro/01.problem.foo'', ''01.intro/11.problem'',
                ''02.next/01.problem'']
          else if pattern = ''**/*solution*''
          then [''01.intro/01.solution.foo'', ''02.next/01.solution'']
          else [''b'', ''a'']),
       modifiedTimes = Map.empty,
       localeCompare = compareCodeUnits,
       array_sort = insertionSort \<rparr>"


section \<open>The playground sync\<close>

text \<open>
  The file system \<^verbatim>\<open>setPlayground\<close> works on: every entry, file or directory, under
  its path, a path being the list of its segments below the root \<^verbatim>\<open>/\<close>. The file
  holding the playground's app name is kept as the JSON value written to it.
\<close>

type_synonym fpath = "string list"

datatype node = Dir | File string | JsonFile json

type_synonym file_system = "(fpath \<times> node) list"





text \<open>
  \<^verbatim>\<open>getFiles\<close>, local to \<^verbatim>\<open>setPlayground\<close>: the entries that the patterns
  \<^verbatim>\<open>${dirPath}/**/*\<close> and \<^verbatim>\<open>!**/build/**/*\<close> select (files and directories, dot files
  too), with the directory's own path taken off the front. The first pattern selects
  everything strictly below the directory; the second one drops a path that has a
  segment \<^verbatim>\<open>build\<close> before its last segment.
\<close>

definition underBuild :: "fpath \<Rightarrow> bool" where
  "underBuild q = (''build'' \<in> set (butlast q))"

definition globby :: "fpath \<Rightarrow> file_system \<Rightarrow> fpath list" where
  "globby dirPath fs = filter (\<lambda>q. strict_prefix dirPath q \<and> \<not> underBuild q) (map fst fs)"

definition getFiles :: "fpath \<Rightarrow> file_system \<Rightarrow> fpath list" where
  "getFiles dir fs = map (\<lambda>f. drop (length dir) f) (globby dir fs)"







section \<open>A small playground\<close>




section \<open>Properties of the classifier\<close>














section \<open>Properties of the staleness tracker\<close>

text \<open>
  Claim C3. For an absolute directory path: \<^verbatim>\<open>getForceFreshForDir\<close> returns
  \<^verbatim>\<open>true\<close> without a cache entry; with an entry it returns \<^verbatim>\<open>true\<close> when the
  staleness map records a time for the directory that is greater than the entry's
  \<^verbatim>\<open>createdTime\<close>, and \<^verbatim>\<open>undefined\<close> when the directory was never recorded or its
  time is not greater. After \<^verbatim>\<open>setModifiedTimesForDir\<close> at a time later than the
  \<^verbatim>\<open>createdTime\<close> of a cached entry, the cached fetch guarded by that directory
  computes a fresh value (or propagates the failure of the computation) and stores it;
  the cached value is not returned.
\<close>

theorem getForceFreshForDir_staleness:
  "isAbsolute dir \<Longrightarrow>
     getForceFreshForDir mt dir None = Inr (Some True)
     \<and> (\<forall>entry. getForceFreshForDir mt dir (Some entry) =
           Inr (case mt dir of
                  None \<Rightarrow> None
                | Some t \<Rightarrow> if createdTime (metadata entry) < t then Some True else None))
     \<and> (\<forall>cache key entry now now' fresh.
           cache key = Some entry \<and> createdTime (metadata entry) < now \<longrightarrow>
           cachifiedForDir (setModifiedTimesForDir now dir mt) cache key dir now' fresh =
             (case fresh of
                Inl err \<Rightarrow> Inl err
              | Inr v \<Rightarrow>
                  Inr (Computed v,
                       cache(key \<mapsto> \<lparr> metadata = \<lparr> createdTime = now', ttl = Some 86400000,
                                                   swr = Some 0 \<rparr>,
                                      value = v \<rparr>))))"
  by (auto simp: getForceFreshForDir_def cachifiedForDir_def cachified_def
        setModifiedTimesForDir_def split: option.splits sum.splits)

theorem getForceFreshForDir_staleness_witness:
  "isAbsolute ''/w/exercises/01.intro/01.problem''
   \<and> getForceFreshForDir Map.empty ''/w/exercises/01.intro/01.problem''
         (None :: string cache_entry option) = Inr (Some True)
   \<and> getForceFreshForDir [''/w/exercises/01.intro/01.problem'' \<mapsto> 200]
         ''/w/exercises/01.intro/01.problem''
         (Some \<lparr> metadata = \<lparr> createdTime = 100, ttl = Some 86400000, swr = Some 0 \<rparr>,
                  value = ''old'' \<rparr>) = Inr (Some True)
   \<and> getForceFreshForDir [''/w/exercises/01.intro/01.problem'' \<mapsto> 50]
         ''/w/exercises/01.intro/01.problem''
         (Some \<lparr> metadata = \<lparr> createdTime = 100, ttl = Some 86400000, swr = Some 0 \<rparr>,
                  value = ''old'' \<rparr>) = Inr None
   \<and> cachifiedForDir (setModifiedTimesForDir 200 ''/w/exercises/01.intro/01.problem'' Map.empty)
         [''/w/exercises/01.intro/01.problem'' \<mapsto>
            \<lparr> metadata = \<lparr> createdTime = 100, ttl = Some 86400000, swr = Some 0 \<rparr>,
              value = ''old'' \<rparr>]
         ''/w/exercises/01.intro/01.problem'' ''/w/exercises/01.intro/01.problem'' 300 (Inr ''new'')
       = Inr (Computed ''new'',
              [''/w/exercises/01.intro/01.problem'' \<mapsto>
                 \<lparr> metadata = \<lparr> createdTime = 300, ttl = Some 86400000, swr = Some 0 \<rparr>,
                   value = ''new'' \<rparr>])"
proof -
  have abs: "isAbsolute ''/w/exercises/01.intro/01.problem''"
    by (simp add: isAbsolute_def)
  note s = getForceFreshForDir_staleness [OF abs]
  have a: "getForceFreshForDir Map.empty ''/w/exercises/01.intro/01.problem''
         (None :: string cache_entry option) = Inr (Some True)"
    by (rule s [THEN conjunct1])
  have b: "getForceFreshForDir [''/w/exercises/01.intro/01.problem'' \<mapsto> 200]
         ''/w/exercises/01.intro/01.problem''
         (Some \<lparr> metadata = \<lparr> createdTime = 100, ttl = Some 86400000, swr = Some 0 \<rparr>,
                  value = ''old'' \<rparr>) = Inr (Some True)"
    by (simp add: s [THEN conjunct2, THEN conjunct1])
  have c: "getForceFreshForDir [''/w/exercises/01.intro/01.problem'' \<mapsto> 50]
         ''/w/exercises/01.intro/01.problem''
         (Some \<lparr> metadata = \<lparr> createdTime = 100, ttl = Some 86400000, swr = Some 0 \<rparr>,
                  value = ''old'' \<rparr>) = Inr None"
    by (simp add: s [THEN conjunct2, THEN conjunct1])
  have d: "cachifiedForDir (setModifiedTimesForDir 200 ''/w/exercises/01.intro/01.problem'' Map.empty)
         [''/w/exercises/01.intro/01.problem'' \<mapsto>
            \<lparr> metadata = \<lparr> createdTime = 100, ttl = Some 86400000, swr = Some 0 \<rparr>,
              value = ''old'' \<rparr>]
         ''/w/exercises/01.intro/01.problem'' ''/w/exercises/01.intro/01.problem'' 300 (Inr ''new'')
       = Inr (Computed ''new'',
              [''/w/exercises/01.intro/01.problem'' \<mapsto>
                 \<lparr> metadata = \<lparr> createdTime = 300, ttl = Some 86400000, swr = Some 0 \<rparr>,
                   value = ''new'' \<rparr>])"
    by (subst s [THEN conjunct2, THEN conjunct2, rule_format,
          of _ _ "\<lparr> metadata = \<lparr> createdTime = 100, ttl = Some 86400000, swr = Some 0 \<rparr>,
              value = ''old'' \<rparr>"]) simp_all
  from abs a b c d show ?thesis
    by blast
qed

text \<open>
  Claim C10. \<^verbatim>\<open>getForceFreshForDir\<close> throws for every directory path that is not
  absolute, whatever the cache entry, and returns for every absolute one.
\<close>

theorem getForceFreshForDir_requires_absolute:
  "(\<not> isAbsolute dir \<longrightarrow> getForceFreshForDir mt dir entry = Inl (NonAbsolutePath dir))
   \<and> (isAbsolute dir \<longrightarrow> (\<exists>r. getForceFreshForDir mt dir entry = Inr r))"
  by (auto simp: getForceFreshForDir_def split: option.splits)

theorem getForceFreshForDir_requires_absolute_witness:
  "getForceFreshForDir Map.empty ''exercises/01.problem'' (None :: unit cache_entry option)
     = Inl (NonAbsolutePath ''exercises/01.problem'')
   \<and> (\<exists>r. getForceFreshForDir Map.empty ''/w/exercises/01.problem'' (None :: unit cache_entry option) = Inr r)"
  using getForceFreshForDir_requires_absolute [of "''exercises/01.problem''" Map.empty None]
        getForceFreshForDir_requires_absolute [of "''/w/exercises/01.problem''" Map.empty None]
  by (simp add: isAbsolute_def)

section \<open>Properties of the comparator\<close>

text \<open>
  Claim C1 fails on the comparator. Asked about an example app and the playground in
  either order, it answers \<^verbatim>\<open>1\<close>, so it puts the example behind the playground as
  well as the playground behind the example; asked about the problem of exercise 1,
  step 1, and the solution of exercise 1, step 2, in either order, it answers \<^verbatim>\<open>1\<close>
  again. The branches for a playground or a problem in second position have the sign
  of the branches for the first position.
\<close>

theorem compareApps_contradicts_itself:
  "compareApps lc (ExampleApp x) (PlaygroundApp g) = 1
   \<and> compareApps lc (PlaygroundApp g) (ExampleApp x) = 1
   \<and> compareApps lc (ProblemApp (p\<lparr>exerciseNumber := 1, stepNumber := 1\<rparr>))
        (SolutionApp (s\<lparr>exerciseNumber := 1, stepNumber := 2\<rparr>)) = 1
   \<and> compareApps lc (SolutionApp (s\<lparr>exerciseNumber := 1, stepNumber := 2\<rparr>))
        (ProblemApp (p\<lparr>exerciseNumber := 1, stepNumber := 1\<rparr>)) = 1"
  by (simp add: compareApps_def)

section \<open>Properties of the scans\<close>

lemma join_Cons: "join s (a # xs) = (if xs = [] then a else a @ s @ join s xs)"
  by (cases xs) simp_all

lemma isAbsolute_Cons: "isAbsolute (c # cs) = (c = CHR ''/'')"
  by (simp add: isAbsolute_def)

lemma isAbsolute_Nil: "\<not> isAbsolute []"
  by (simp add: isAbsolute_def)

lemma isAbsolute_append: "isAbsolute a \<Longrightarrow> isAbsolute (a @ b)"
  by (cases a) (simp_all add: isAbsolute_def)

lemma isAbsolute_path_normalize:
  assumes "isAbsolute p"
  shows "isAbsolute (path_normalize p)"
proof -
  from assms have ne: "p \<noteq> []"
    by (auto simp: isAbsolute_Nil)
  show ?thesis
    unfolding path_normalize_def Let_def using assms ne
    by (simp add: isAbsolute_Cons)
qed

lemma isAbsolute_path_join:
  assumes abs: "isAbsolute a"
  shows "isAbsolute (path_join (a # rest))"
proof -
  from abs have ne: "a \<noteq> []"
    by (auto simp: isAbsolute_Nil)
  have j: "isAbsolute (join ''/'' (a # filter (\<lambda>a. a \<noteq> []) rest))"
    using abs by (simp add: join_Cons isAbsolute_append)
  then have "join ''/'' (a # filter (\<lambda>a. a \<noteq> []) rest) \<noteq> []"
    by (auto simp: isAbsolute_Nil)
  with j ne show ?thesis
    by (simp add: path_join_def Let_def isAbsolute_path_normalize)
qed

lemma findSolutionDir_base:
  "\<not> endsWith p ''playground'' \<Longrightarrow> findSolutionDir e p \<noteq> None"
  by (subst findSolutionDir.simps) (simp add: Let_def split: sum.splits option.splits)

lemma findSolutionDir_settles:
  assumes "playgroundSourceSettles e"
  shows "findSolutionDir e p \<noteq> None"
proof (cases "includesStr (basename p) ''.problem'' \<or> \<not> endsWith p ''playground''")
  case True
  then show ?thesis
    by (subst findSolutionDir.simps) (auto simp: Let_def split: sum.splits option.splits)
next
  case False
  show ?thesis
  proof (cases "getPlaygroundAppName e")
    case None
    with False show ?thesis
      by (subst findSolutionDir.simps) (simp add: Let_def)
  next
    case (Some n)
    with assms have "n = [] \<or> findSolutionDir e (getFullPathFromAppName (workshopRoot e) n) \<noteq> None"
      by (auto simp: playgroundSourceSettles_def findSolutionDir_base)
    with Some False show ?thesis
      by (subst findSolutionDir.simps) (auto simp: Let_def)
  qed
qed

lemma findProblemDir_base:
  "\<not> endsWith p ''playground'' \<Longrightarrow> findProblemDir e p \<noteq> None"
  by (subst findProblemDir.simps) (simp add: Let_def split: sum.splits option.splits)

lemma findProblemDir_settles:
  assumes "playgroundSourceSettles e"
  shows "findProblemDir e p \<noteq> None"
proof (cases "includesStr (basename p) ''.solution'' \<or> \<not> endsWith p ''playground''")
  case True
  then show ?thesis
    by (subst findProblemDir.simps) (auto simp: Let_def split: sum.splits option.splits)
next
  case False
  show ?thesis
  proof (cases "getPlaygroundAppName e")
    case None
    with False show ?thesis
      by (subst findProblemDir.simps) (simp add: Let_def)
  next
    case (Some n)
    with assms have "n = [] \<or> findProblemDir e (getFullPathFromAppName (workshopRoot e) n) \<noteq> None"
      by (auto simp: playgroundSourceSettles_def findProblemDir_base)
    with Some False show ?thesis
      by (subst findProblemDir.simps) (auto simp: Let_def)
  qed
qed

lemma getTestInfo_settles:
  "playgroundSourceSettles e \<Longrightarrow> getTestInfo e p \<noteq> None"
  using findSolutionDir_settles [of e p]
  by (auto simp: getTestInfo_def Let_def split: sum.splits option.splits if_splits)

lemma promiseAll_settles: "a \<noteq> None \<Longrightarrow> (promiseAll a (Some b) = None) = False"
  by (cases "(a, Some b)" rule: promiseAll.cases) auto

lemma getProblemAppFromPath_settles:
  "playgroundSourceSettles e \<Longrightarrow> getProblemAppFromPath e p \<noteq> None"
  by (simp add: getProblemAppFromPath_def Let_def findSolutionDir_settles
        promiseAll_settles getTestInfo_settles split: sum.splits option.splits)

lemma getSolutionAppFromPath_settles:
  "playgroundSourceSettles e \<Longrightarrow> getSolutionAppFromPath e p \<noteq> None"
  by (simp add: getSolutionAppFromPath_def Let_def findProblemDir_settles
        promiseAll_settles getTestInfo_settles split: sum.splits option.splits)

lemma getExampleAppFromPath_settles:
  "playgroundSourceSettles e \<Longrightarrow> getExampleAppFromPath e p i \<noteq> None"
  by (simp add: getExampleAppFromPath_def Let_def getTestInfo_settles
        split: sum.splits option.splits)

lemma getForceFreshForDir_absolute:
  "isAbsolute d \<Longrightarrow> getForceFreshForDir mt d noEntry = Inr (Some True)"
  by (simp add: getForceFreshForDir_def noEntry_def)

lemma problemAppsLoop_result:
  assumes "playgroundSourceSettles e" and "\<forall>d \<in> set dirs. isAbsolute d"
  shows "problemAppsLoop e dirs acc =
           Some (Inr (acc @ concat (map (\<lambda>d. built (getProblemAppFromPath e d)) dirs)))"
  using assms(2)
proof (induction dirs arbitrary: acc)
  case Nil
  show ?case by simp
next
  case (Cons d dirs)
  from Cons.prems have abs: "isAbsolute d" and rest: "\<forall>d \<in> set dirs. isAbsolute d"
    by simp_all
  from getProblemAppFromPath_settles [OF assms(1), of d]
  obtain r where r: "getProblemAppFromPath e d = Some r"
    by auto
  show ?case
    using Cons.IH [OF rest] r abs
    by (cases r) (auto simp: getForceFreshForDir_absolute catchToNull_def built_def
                      split: option.splits)
qed

lemma solutionAppsLoop_result:
  assumes "playgroundSourceSettles e" and "\<forall>d \<in> set dirs. isAbsolute d"
  shows "solutionAppsLoop e dirs acc =
           Some (Inr (acc @ concat (map (\<lambda>d. built (getSolutionAppFromPath e d)) dirs)))"
  using assms(2)
proof (induction dirs arbitrary: acc)
  case Nil
  show ?case by simp
next
  case (Cons d dirs)
  from Cons.prems have abs: "isAbsolute d" and rest: "\<forall>d \<in> set dirs. isAbsolute d"
    by simp_all
  from getSolutionAppFromPath_settles [OF assms(1), of d]
  obtain r where r: "getSolutionAppFromPath e d = Some r"
    by auto
  show ?case
    using Cons.IH [OF rest] r abs
    by (cases r) (auto simp: getForceFreshForDir_absolute catchToNull_def built_def
                      split: option.splits)
qed

lemma exampleAppsLoop_result:
  assumes "playgroundSourceSettles e" and "\<forall>d \<in> set dirs. isAbsolute d"
  shows "exampleAppsLoop e all dirs acc =
           Some (Inr (acc @ concat (map (\<lambda>d. builtExample (getExampleAppFromPath e d (indexOf all d))) dirs)))"
  using assms(2)
proof (induction dirs arbitrary: acc)
  case Nil
  show ?case by simp
next
  case (Cons d dirs)
  from Cons.prems have abs: "isAbsolute d" and rest: "\<forall>d \<in> set dirs. isAbsolute d"
    by simp_all
  from getExampleAppFromPath_settles [OF assms(1), of d]
  obtain r where r: "getExampleAppFromPath e d (indexOf all d) = Some r"
    by auto
  show ?case
    using Cons.IH [OF rest] r abs
    by (cases r) (auto simp: getForceFreshForDir_absolute catchToNull_def builtExample_def Let_def
                      split: option.splits)
qed

lemma dirs_absolute:
  assumes "isAbsolute (workshopRoot e)"
  shows "\<forall>d \<in> set (problemDirs e). isAbsolute d"
    and "\<forall>d \<in> set (solutionDirs e). isAbsolute d"
    and "\<forall>d \<in> set (exampleDirs e). isAbsolute d"
  using assms
  by (auto simp: problemDirs_def solutionDirs_def exampleDirs_def Let_def
           intro!: isAbsolute_path_join)

lemma getPlaygroundApp_result:
  assumes "isAbsolute (workshopRoot e)" and "playgroundSourceSettles e"
  shows "\<exists>playgroundApp. getPlaygroundApp e = Some (Inr playgroundApp)"
proof -
  have abs: "isAbsolute (path_join [workshopRoot e, ''playground''])"
    using assms(1) by (rule isAbsolute_path_join)
  show ?thesis
    by (simp add: getPlaygroundApp_def Let_def getForceFreshForDir_absolute [OF abs] catchToNull_def
          promiseAll_settles getTestInfo_settles [OF assms(2)]
          split: option.splits sum.splits)
qed

lemma map_filter_Some: "List.map_filter (\<lambda>a. a) (map (\<lambda>a. Some (f a)) xs) = map f xs"
  by (induction xs) (simp_all add: List.map_filter_simps)

lemma map_filter_append: "List.map_filter f (xs @ ys) = List.map_filter f xs @ List.map_filter f ys"
  by (simp add: List.map_filter_def)

lemma getApps_result:
  assumes "isAbsolute (workshopRoot e)" and "playgroundSourceSettles e"
  shows "\<exists>playgroundApp. getPlaygroundApp e = Some (Inr playgroundApp)
           \<and> getApps e = Some (Inr (array_sort e (compareApps (localeCompare e)) (catalogOf e playgroundApp)))"
proof -
  from getPlaygroundApp_result [OF assms] obtain pg where pg: "getPlaygroundApp e = Some (Inr pg)"
    by blast
  note d = dirs_absolute [OF assms(1)]
  have p: "getProblemApps e = Some (Inr (concat (map (\<lambda>d. built (getProblemAppFromPath e d)) (problemDirs e))))"
    by (simp add: getProblemApps_def problemAppsLoop_result [OF assms(2) d(1)])
  have s: "getSolutionApps e = Some (Inr (concat (map (\<lambda>d. built (getSolutionAppFromPath e d)) (solutionDirs e))))"
    by (simp add: getSolutionApps_def solutionAppsLoop_result [OF assms(2) d(2)])
  have x: "getExampleApps e = Some (Inr (concat (map (\<lambda>d. builtExample (getExampleAppFromPath e d (indexOf (exampleDirs e) d))) (exampleDirs e))))"
    by (simp add: getExampleApps_def exampleAppsLoop_result [OF assms(2) d(3)])
  have "getApps e = Some (Inr (array_sort e (compareApps (localeCompare e)) (catalogOf e pg)))"
    by (cases pg)
       (simp_all add: getApps_def pg p s x catalogOf_def map_filter_append map_filter_Some
          List.map_filter_simps)
  with pg show ?thesis
    by blast
qed

lemma count_playground_catalog: "length (filter isPlaygroundApp (catalogOf e pg)) \<le> 1"
  by (cases pg) (simp_all add: catalogOf_def filter_map o_def)

section \<open>The small workshop, evaluated\<close>

lemma workshop_fields:
  "workshopRoot workshop = ''/w''"
  "fs_exists workshop p = (endsWith p ''/package.json'' \<or> p = ''/w/playground''
                      \<or> p = ''/w/node_modules/.cache/kcdshop/playground.json'')"
  "fs_readdir workshop d = (if d = ''/w/exercises/01.intro''
          then Inr [''00.problem'', ''01.problem.foo'', ''01.solution.foo'', ''11.problem'']
          else if d = ''/w/exercises/02.next'' then Inr [''01.problem'', ''01.solution'']
          else Inr [])"
  "readJson workshop p = (if p = ''/w/node_modules/.cache/kcdshop/playground.json''
          then Inr (JObject [(''appName'', JString ''exercises__sep__02.next__sep__01.problem'')])
          else if p = ''/w/examples/b/package.json'' then Inl (FsError p)
          else Inr (JObject [(''scripts'', JObject [(''dev'', JString ''vite'')])]))"
  "compileMdx workshop p = Inl (CompileError p)"
  "glob workshop pat cwd = (if pat = ''**/*problem*''
          then [''01.intro/00.problem'', ''01.intro/01.problem.foo'', ''01.intro/11.problem'',
                ''02.next/01.problem'']
          else if pat = ''**/*solution*''
          then [''01.intro/01.solution.foo'', ''02.next/01.solution'']
          else [''b'', ''a''])"
  "modifiedTimes workshop = Map.empty"
  "localeCompare workshop = compareCodeUnits"
  "array_sort workshop = insertionSort"
  by (simp_all add: workshop_def)

lemma findSolutionDir_of_problem:
  "includesStr (basename p) ''.problem'' \<Longrightarrow>
   findSolutionDir e p =
           (case getAppDirInfo (basename p) of
              Inl err \<Rightarrow> Some (Inl err)
            | Inr None \<Rightarrow> Some (Inr None)
            | Inr (Some info) \<Rightarrow>
                (case fs_readdir e (dirname p) of
                      Inl err \<Rightarrow> Some (Inl err)
                    | Inr siblingDirs \<Rightarrow>
                        (case find (\<lambda>dir. startsWith dir (padStart 2 CHR ''0'' (toString (info_stepNumber info)) @ ''.solution''))
                                siblingDirs of
                           Some solutionDir \<Rightarrow> Some (Inr (Some (path_join [dirname p, solutionDir])))
                         | None \<Rightarrow> Some (Inr None))))"
  by (subst findSolutionDir.simps) (simp add: Let_def split: sum.splits option.splits)

lemma findSolutionDir_of_other:
  "\<not> includesStr (basename p) ''.problem'' \<Longrightarrow> \<not> endsWith p ''playground'' \<Longrightarrow>
   findSolutionDir e p = Some (Inr None)"
  by (subst findSolutionDir.simps) (simp add: Let_def)

lemma findSolutionDir_of_playground:
  "\<not> includesStr (basename p) ''.problem'' \<Longrightarrow> endsWith p ''playground'' \<Longrightarrow>
   getPlaygroundAppName e = Some n \<Longrightarrow> n \<noteq> [] \<Longrightarrow>
   findSolutionDir e p = findSolutionDir e (getFullPathFromAppName (workshopRoot e) n)"
  by (subst findSolutionDir.simps) (simp add: Let_def)

lemma findProblemDir_of_solution:
  "includesStr (basename p) ''.solution'' \<Longrightarrow>
   findProblemDir e p =
           (case getAppDirInfo (basename p) of
              Inl err \<Rightarrow> Some (Inl err)
            | Inr None \<Rightarrow> Some (Inr None)
            | Inr (Some info) \<Rightarrow>
                (case fs_readdir e (dirname p) of
                      Inl err \<Rightarrow> Some (Inl err)
                    | Inr siblingDirs \<Rightarrow>
                        (case find (\<lambda>dir. endsWith dir ''problem'' \<and> includesStr dir (padStart 2 CHR ''0'' (toString (info_stepNumber info))))
                                siblingDirs of
                           Some problemDir \<Rightarrow> Some (Inr (Some (path_join [dirname p, problemDir])))
                         | None \<Rightarrow> Some (Inr None))))"
  by (subst findProblemDir.simps) (simp add: Let_def split: sum.splits option.splits)

lemmas eval_defs =
  workshop_fields basename_def dirname_def extractExerciseNumber_def
  isDigit_def Number_def digitValue_def getAppName_def getFullPathFromAppName_def sep_def
  getAppDirInfo_def appDirRegex_exec_def isLineTerminator_def startsWith_def endsWith_def
  padStart_def digitChar_def toString.simps path_join_def path_normalize_def isAbsolute_def
  getTestInfo_def getDevInfo_def getPkgProp_def compileMdxIfExists_def nameIfDir_def
  getPlaygroundAppName_def playgroundAppNameInfoPath_def Let_def


lemma ev_p01: "getProblemAppFromPath workshop ''/w/exercises/01.intro/01.problem.foo'' =
  Some (Inr (Some
         \<lparr>name = ''exercises__sep__01.intro__sep__01.problem.foo'',
            title = ''exercises__sep__01.intro__sep__01.problem.foo'',
            dirName = ''01.problem.foo'',
            fullPath = ''/w/exercises/01.intro/01.problem.foo'',
            relativePath = ''exercises/01.intro/01.problem.foo'',
            instructionsCode = None, epicVideoEmbeds = None,
            test = TestNone,
            dev = DevScript 6001 ''http://localhost:6001/'',
            exerciseNumber = 1, stepNumber = 1,
            solutionName =
              Some ''exercises__sep__01.intro__sep__01.solution.foo''\<rparr>))"
  by (simp add: getProblemAppFromPath_def problemPortNumber_def findSolutionDir_of_problem eval_defs)

lemma ev_s01: "getSolutionAppFromPath workshop ''/w/exercises/01.intro/01.solution.foo'' =
  Some (Inr (Some
         \<lparr>name = ''exercises__sep__01.intro__sep__01.solution.foo'',
            title = ''exercises__sep__01.intro__sep__01.solution.foo'',
            dirName = ''01.solution.foo'',
            fullPath = ''/w/exercises/01.intro/01.solution.foo'',
            relativePath = ''exercises/01.intro/01.solution.foo'',
            instructionsCode = None, epicVideoEmbeds = None,
            test = TestNone,
            dev = DevScript 7001 ''http://localhost:7001/'',
            exerciseNumber = 1, stepNumber = 1, problemName = None\<rparr>))"
  by (simp add: getSolutionAppFromPath_def solutionPortNumber_def findProblemDir_of_solution
        findSolutionDir_of_other eval_defs)

lemma ev_settles: "playgroundSourceSettles workshop"
  by (simp add: playgroundSourceSettles_def eval_defs)




lemma mset_insertBy: "mset (insertBy cmp x ys) = add_mset x (mset ys)"
  by (induction ys) simp_all

lemma mset_insertionSort_aux:
  "mset (foldl (\<lambda>sorted x. insertBy cmp x sorted) acc xs) = mset acc + mset xs"
  by (induction xs arbitrary: acc) (simp_all add: mset_insertBy)

lemma mset_insertionSort: "mset (insertionSort cmp xs) = mset xs"
  by (simp add: insertionSort_def mset_insertionSort_aux)

lemma workshop_absolute: "isAbsolute (workshopRoot workshop)"
  by (simp add: workshop_fields isAbsolute_def)

lemma length_filter_mset_cong:
  assumes "mset xs = mset ys"
  shows "length (filter P xs) = length (filter P ys)"
proof -
  have "length (filter P zs) = size (filter_mset P (mset zs))" for zs
    by (metis mset_filter size_mset)
  with assms show ?thesis
    by simp
qed

lemma filterBoolean_catalog:
  "List.map_filter (\<lambda>a. a)
     ([map_option PlaygroundApp pg]
      @ map (\<lambda>a. Some (ProblemApp a)) ps
      @ map (\<lambda>a. Some (SolutionApp a)) ss
      @ map (\<lambda>a. Some (ExampleApp a)) xs)
   = (case pg of None \<Rightarrow> [] | Some a \<Rightarrow> [PlaygroundApp a])
     @ map ProblemApp ps @ map SolutionApp ss @ map ExampleApp xs"
  by (cases pg) (simp_all add: map_filter_append map_filter_Some List.map_filter_simps)

section \<open>Properties of the catalog\<close>



text \<open>
  Claim C9. A catalog that \<^verbatim>\<open>getApps\<close> returns holds at most one playground app,
  whatever the engine's sort does as long as it permutes its input.
\<close>

theorem getApps_at_most_one_playground:
  assumes "getApps e = Some (Inr apps)"
    and "\<forall>cmp xs. mset (array_sort e cmp xs) = mset xs"
  shows "length (filter isPlaygroundApp apps) \<le> 1"
proof -
  from assms(1) obtain pg ps ss xs where
    scans: "getPlaygroundApp e = Some (Inr pg)" "getProblemApps e = Some (Inr ps)"
      "getSolutionApps e = Some (Inr ss)" "getExampleApps e = Some (Inr xs)"
    by (auto simp: getApps_def split: option.splits sum.splits)
  from assms(1) have
    apps: "apps = array_sort e (compareApps (localeCompare e))
             ((case pg of None \<Rightarrow> [] | Some a \<Rightarrow> [PlaygroundApp a])
              @ map ProblemApp ps @ map SolutionApp ss @ map ExampleApp xs)"
    unfolding getApps_def filterBoolean_catalog scans by simp
  from assms(2) have "mset apps = mset ((case pg of None \<Rightarrow> [] | Some a \<Rightarrow> [PlaygroundApp a])
              @ map ProblemApp ps @ map SolutionApp ss @ map ExampleApp xs)"
    unfolding apps by simp
  from length_filter_mset_cong [OF this, of isPlaygroundApp] show ?thesis
    by (cases pg) (simp_all add: filter_map o_def)
qed

theorem getApps_at_most_one_playground_witness:
  "\<exists>apps. getApps workshop = Some (Inr apps)
     \<and> (\<forall>cmp xs. mset (array_sort workshop cmp xs) = mset xs)
     \<and> length (filter isPlaygroundApp apps) \<le> 1"
proof -
  from getApps_result [OF workshop_absolute ev_settles]
  obtain apps where apps: "getApps workshop = Some (Inr apps)"
    by blast
  have perm: "\<forall>cmp xs. mset (array_sort workshop cmp xs) = mset xs"
    by (simp add: workshop_fields mset_insertionSort)
  from getApps_at_most_one_playground [OF apps perm] apps perm show ?thesis
    by blast
qed

text \<open>
  Claim C6 fails on the code. In the small workshop the exercise \<^verbatim>\<open>01.intro\<close> holds
  \<^verbatim>\<open>01.problem.foo\<close> and \<^verbatim>\<open>01.solution.foo\<close>. The problem app names the solution
  app in \<^verbatim>\<open>solutionName\<close>; the solution app has \<^verbatim>\<open>problemName = null\<close>, since
  \<^verbatim>\<open>findProblemDir\<close> only accepts a sibling whose name ends in \<^verbatim>\<open>problem\<close>.
\<close>

theorem cross_link_asymmetry:
  "getProblemAppFromPath workshop ''/w/exercises/01.intro/01.problem.foo'' =
     Some (Inr (Some
         \<lparr>name = ''exercises__sep__01.intro__sep__01.problem.foo'',
            title = ''exercises__sep__01.intro__sep__01.problem.foo'',
            dirName = ''01.problem.foo'',
            fullPath = ''/w/exercises/01.intro/01.problem.foo'',
            relativePath = ''exercises/01.intro/01.problem.foo'',
            instructionsCode = None, epicVideoEmbeds = None,
            test = TestNone,
            dev = DevScript 6001 ''http://localhost:6001/'',
            exerciseNumber = 1, stepNumber = 1,
            solutionName = Some ''exercises__sep__01.intro__sep__01.solution.foo''\<rparr>))
   \<and> getSolutionAppFromPath workshop ''/w/exercises/01.intro/01.solution.foo'' =
     Some (Inr (Some
         \<lparr>name = ''exercises__sep__01.intro__sep__01.solution.foo'',
            title = ''exercises__sep__01.intro__sep__01.solution.foo'',
            dirName = ''01.solution.foo'',
            fullPath = ''/w/exercises/01.intro/01.solution.foo'',
            relativePath = ''exercises/01.intro/01.solution.foo'',
            instructionsCode = None, epicVideoEmbeds = None,
            test = TestNone,
            dev = DevScript 7001 ''http://localhost:7001/'',
            exerciseNumber = 1, stepNumber = 1, problemName = None\<rparr>))"
  using ev_p01 ev_s01 by (rule conjI)

section \<open>Properties of the port assignment\<close>










lemma ev_xa: "getExampleAppFromPath workshop ''/w/examples/a'' 1 =
  Some (Inr \<lparr>name = ''examples__sep__a'', title = ''examples__sep__a'',
           dirName = ''a'', fullPath = ''/w/examples/a'',
           relativePath = ''examples/a'', instructionsCode = None,
           epicVideoEmbeds = None, test = TestNone,
           dev = DevScript 8001 ''http://localhost:8001/''\<rparr>)"
  by (simp add: getExampleAppFromPath_def examplePortNumber_def findSolutionDir_of_other eval_defs)

lemma ev_pg: "getPlaygroundApp workshop =
  Some (Inr (Some
         \<lparr>name = ''playground'', title = ''playground'',
            dirName = ''playground'', fullPath = ''/w/playground'',
            relativePath = ''playground'', instructionsCode = None,
            epicVideoEmbeds = None, test = TestNone,
            dev = DevScript 4000 ''http://localhost:4000/'',
            appName = ''exercises__sep__02.next__sep__01.problem''\<rparr>))"
proof -
  have n: "getPlaygroundAppName workshop = Some ''exercises__sep__02.next__sep__01.problem''"
    by (simp add: eval_defs)
  have f: "findSolutionDir workshop ''/w/playground'' = Some (Inr (Some ''/w/exercises/02.next/01.solution''))"
    by (subst findSolutionDir_of_playground [OF _ _ n])
       (simp_all add: findSolutionDir_of_problem eval_defs)
  show ?thesis
    by (simp add: getPlaygroundApp_def playgroundPortNumber_def getForceFreshForDir_def noEntry_def
          catchToNull_def n f eval_defs)
qed




section \<open>Properties of app identity\<close>

lemma join_append:
  "rs \<noteq> [] \<Longrightarrow> ss \<noteq> [] \<Longrightarrow> join s (rs @ ss) = join s rs @ s @ join s ss"
proof (induction rs)
  case Nil
  then show ?case by simp
next
  case (Cons r rs)
  show ?case
  proof (cases "rs = []")
    case True
    with Cons.prems show ?thesis
      by (simp add: join_Cons)
  next
    case False
    with Cons show ?thesis
      by (simp add: join_Cons)
  qed
qed

lemma replaceFirst_prefix: "replaceFirst pat r (pat @ s) = r @ s"
proof (cases "pat @ s")
  case Nil
  then show ?thesis
    by simp
next
  case (Cons a list)
  have "prefix pat (pat @ s)"
    by simp
  then have "replaceFirst pat r (pat @ s) = r @ drop (length pat) (pat @ s)"
    unfolding Cons by simp
  then show ?thesis
    by simp
qed

lemma replaceAll_skip:
  "\<not> prefix p (c # cs) \<Longrightarrow> replaceAll p r (c # cs) = c # replaceAll p r cs"
  by simp

lemma replaceAll_hit:
  assumes "p \<noteq> []"
  shows "replaceAll p r (p @ rest) = r @ replaceAll p r rest"
proof -
  from assms obtain c cs where p: "p @ rest = c # cs"
    by (cases p) auto
  have "prefix p (p @ rest)"
    by simp
  with assms have "replaceAll p r (p @ rest) = r @ replaceAll p r (drop (length p) (p @ rest))"
    unfolding p by simp
  then show ?thesis
    by simp
qed

lemma split_not_Nil: "split c s \<noteq> []"
  by (induction s) (auto split: list.splits)

lemma split_no_sep: "c \<notin> set s \<Longrightarrow> split c s = [s]"
  by (induction s) (auto split: list.splits)

lemma split_append_sep:
  "c \<notin> set s \<Longrightarrow> split c (s @ c # rest) = s # split c rest"
  by (induction s) (auto split: list.splits simp: split_not_Nil)

lemma split_join:
  assumes "segs \<noteq> []" and "\<forall>s \<in> set segs. c \<notin> set s"
  shows "split c (join [c] segs) = segs"
  using assms
proof (induction segs)
  case Nil
  then show ?case by simp
next
  case (Cons s segs)
  show ?case
  proof (cases "segs = []")
    case True
    with Cons.prems show ?thesis
      by (simp add: split_no_sep)
  next
    case False
    with Cons show ?thesis
      by (simp add: join_Cons split_append_sep)
  qed
qed

lemma includesStr_tail: "\<not> includesStr (c # cs) p \<Longrightarrow> \<not> includesStr cs p"
  by simp

lemma includesStr_prefix: "prefix p s \<Longrightarrow> includesStr s p"
  by (cases s) auto

lemma no_token_at_front:
  assumes "\<not> includesStr s ''__sep''"
  shows "\<not> prefix ''__sep__'' s"
proof
  assume "prefix ''__sep__'' s"
  moreover have "prefix ''__sep'' ''__sep__''"
    by simp
  ultimately have "prefix ''__sep'' s"
    by (rule prefix_order.trans [rotated])
  with assms show False
    by (simp add: includesStr_prefix)
qed

lemma no_early_match:
  assumes "\<not> includesStr s ''__sep''" and "s \<noteq> []"
  shows "\<not> prefix ''__sep__'' (s @ ''__sep__'' @ rest)"
proof (cases s)
  case Nil
  with assms(2) show ?thesis by simp
next
  case s1: (Cons c1 t1)
  show ?thesis
  proof (cases t1)
    case Nil
    with s1 show ?thesis by simp
  next
    case s2: (Cons c2 t2)
    show ?thesis
    proof (cases t2)
      case Nil
      with s1 s2 show ?thesis by simp
    next
      case s3: (Cons c3 t3)
      show ?thesis
      proof (cases t3)
        case Nil
        with s1 s2 s3 show ?thesis by simp
      next
        case s4: (Cons c4 t4)
        show ?thesis
        proof (cases t4)
          case Nil
          with s1 s2 s3 s4 show ?thesis by simp
        next
          case s5: (Cons c5 t5)
          from assms(1) have "\<not> prefix ''__sep'' s"
            using includesStr_prefix by blast
          with s1 s2 s3 s4 s5 show ?thesis
            by auto
        qed
      qed
    qed
  qed
qed

lemma replaceAll_segment:
  assumes "\<not> includesStr s ''__sep''"
  shows "replaceAll ''__sep__'' r (s @ ''__sep__'' @ rest) = s @ r @ replaceAll ''__sep__'' r rest"
  using assms
proof (induction s)
  case Nil
  show ?case
    using replaceAll_hit [of "''__sep__''" r rest] by simp
next
  case (Cons c cs)
  from Cons.prems have tail: "\<not> includesStr cs ''__sep''"
    by (rule includesStr_tail)
  from no_early_match [OF Cons.prems, of rest]
  have "\<not> prefix ''__sep__'' (c # (cs @ ''__sep__'' @ rest))"
    by (simp only: append_Cons list.distinct not_False_eq_True)
  then have "replaceAll ''__sep__'' r (c # (cs @ ''__sep__'' @ rest))
               = c # replaceAll ''__sep__'' r (cs @ ''__sep__'' @ rest)"
    by (rule replaceAll_skip)
  with Cons.IH [OF tail] show ?case
    by (simp only: append_Cons)
qed

lemma replaceAll_last_segment:
  assumes "\<not> includesStr s ''__sep''"
  shows "replaceAll ''__sep__'' r s = s"
  using assms
proof (induction s)
  case Nil
  show ?case by simp
next
  case (Cons c cs)
  from Cons.prems have tail: "\<not> includesStr cs ''__sep''"
    by (rule includesStr_tail)
  from no_token_at_front [OF Cons.prems]
  have "replaceAll ''__sep__'' r (c # cs) = c # replaceAll ''__sep__'' r cs"
    by (rule replaceAll_skip)
  with Cons.IH [OF tail] show ?case
    by (simp only:)
qed

lemma replaceAll_join:
  assumes "\<forall>s \<in> set segs. \<not> includesStr s ''__sep''"
  shows "replaceAll ''__sep__'' r (join ''__sep__'' segs) = join r segs"
  using assms
proof (induction segs)
  case Nil
  show ?case by simp
next
  case (Cons s segs)
  show ?case
  proof (cases "segs = []")
    case True
    with Cons.prems show ?thesis
      by (simp add: replaceAll_last_segment)
  next
    case False
    from Cons.prems have s: "\<not> includesStr s ''__sep''"
      and rest: "\<forall>s \<in> set segs. \<not> includesStr s ''__sep''"
      by simp_all
    have j: "join ''__sep__'' (s # segs) = s @ ''__sep__'' @ join ''__sep__'' segs"
      "join r (s # segs) = s @ r @ join r segs"
      using False by (simp_all only: join_Cons if_False)
    show ?thesis
      unfolding j replaceAll_segment [OF s] Cons.IH [OF rest] ..
  qed
qed

lemma normalizeSegments_valid:
  "\<forall>s \<in> set ss. validSegment s \<Longrightarrow> normalizeSegments a res ss = res @ ss"
  by (induction ss arbitrary: res) (auto simp: validSegment_def)

lemma join_not_Nil:
  "segs \<noteq> [] \<Longrightarrow> \<forall>s \<in> set segs. validSegment s \<Longrightarrow> join sp segs \<noteq> []"
  by (cases segs) (auto simp: join_Cons validSegment_def)

lemma last_join:
  assumes "segs \<noteq> []" and "\<forall>s \<in> set segs. validSegment s"
  shows "last (join ''/'' segs) \<noteq> CHR ''/''"
  using assms
proof (induction segs)
  case Nil
  then show ?case by simp
next
  case (Cons s segs)
  from Cons.prems have s: "s \<noteq> []" "CHR ''/'' \<notin> set s"
    by (simp_all add: validSegment_def)
  show ?case
  proof (cases "segs = []")
    case True
    with last_in_set [OF s(1)] s(2) show ?thesis
      by auto
  next
    case False
    with Cons have "last (join ''/'' segs) \<noteq> CHR ''/''" and "join ''/'' segs \<noteq> []"
      by (simp_all add: join_not_Nil)
    with False show ?thesis
      by (simp add: join_Cons)
  qed
qed

lemma path_normalize_absolutePath:
  assumes "segs \<noteq> []" and "\<forall>s \<in> set segs. validSegment s"
  shows "path_normalize (absolutePath segs) = absolutePath segs"
proof -
  from assms(2) have nosep: "\<forall>s \<in> set segs. CHR ''/'' \<notin> set s"
    by (simp add: validSegment_def)
  have sp: "split CHR ''/'' (absolutePath segs) = [] # segs"
    using split_join [OF assms(1) nosep] by (simp add: absolutePath_def)
  have ne: "join ''/'' segs \<noteq> []"
    by (rule join_not_Nil [OF assms])
  have la: "last (absolutePath segs) \<noteq> CHR ''/''"
    using last_join [OF assms] ne by (simp add: absolutePath_def)
  have ab: "isAbsolute (absolutePath segs)"
    by (simp add: absolutePath_def isAbsolute_def)
  have ns: "normalizeSegments False [] ([] # segs) = segs"
    using normalizeSegments_valid [OF assms(2), of False "[]"] by simp
  have "path_normalize (absolutePath segs) = ''/'' @ join ''/'' segs"
    unfolding path_normalize_def Let_def sp using ab la ne ns
    by (simp add: absolutePath_def)
  then show ?thesis
    by (simp add: absolutePath_def)
qed

text \<open>
  Claim C2, as amended. For a normalized absolute workshop root and a path strictly
  under it whose segments below the root are valid and do not contain \<^verbatim>\<open>__sep\<close>,
  \<^verbatim>\<open>getFullPathFromAppName(getAppName(p))\<close> is the path itself.
\<close>

theorem name_round_trip:
  assumes "rootSegments \<noteq> []" and "\<forall>s \<in> set rootSegments. validSegment s"
    and "segments \<noteq> []" and "\<forall>s \<in> set segments. validSegment s"
    and "\<forall>s \<in> set segments. \<not> includesStr s ''__sep''"
  shows "getFullPathFromAppName (absolutePath rootSegments)
           (getAppName (absolutePath rootSegments) (absolutePath (rootSegments @ segments)))
         = absolutePath (rootSegments @ segments)"
proof -
  from assms(4) have nosep: "\<forall>s \<in> set segments. CHR ''/'' \<notin> set s"
    by (simp add: validSegment_def)
  have p: "absolutePath (rootSegments @ segments)
             = (absolutePath rootSegments @ sep) @ join ''/'' segments"
    by (simp add: absolutePath_def sep_def join_append [OF assms(1,3)])
  have n: "getAppName (absolutePath rootSegments) (absolutePath (rootSegments @ segments))
             = join ''__sep__'' segments"
    unfolding getAppName_def Let_def p replaceFirst_prefix
    using split_join [OF assms(3) nosep] by simp
  have r: "replaceAll ''__sep__'' sep (join ''__sep__'' segments) = join ''/'' segments"
    unfolding sep_def by (rule replaceAll_join [OF assms(5)])
  have rne: "join ''/'' segments \<noteq> []"
    by (rule join_not_Nil [OF assms(3,4)])
  have j: "path_join [absolutePath rootSegments, join ''/'' segments]
             = path_normalize (absolutePath (rootSegments @ segments))"
    using rne by (simp add: path_join_def absolutePath_def join_append [OF assms(1,3)])
  have v: "\<forall>s \<in> set (rootSegments @ segments). validSegment s"
    using assms(2,4) by auto
  have "path_normalize (absolutePath (rootSegments @ segments)) = absolutePath (rootSegments @ segments)"
    by (rule path_normalize_absolutePath [OF _ v]) (simp add: assms(1))
  with j show ?thesis
    by (simp add: getFullPathFromAppName_def n r)
qed

theorem name_round_trip_witness:
  "[''w''] \<noteq> [] \<and> validSegment ''w''
   \<and> validSegment ''exercises'' \<and> validSegment ''01.intro'' \<and> validSegment ''01.problem.my_app''
   \<and> \<not> includesStr ''exercises'' ''__sep'' \<and> \<not> includesStr ''01.intro'' ''__sep''
   \<and> \<not> includesStr ''01.problem.my_app'' ''__sep''
   \<and> getAppName ''/w'' ''/w/exercises/01.intro/01.problem.my_app''
        = ''exercises__sep__01.intro__sep__01.problem.my_app''
   \<and> getFullPathFromAppName ''/w'' (getAppName ''/w'' ''/w/exercises/01.intro/01.problem.my_app'')
        = ''/w/exercises/01.intro/01.problem.my_app''"
proof -
  have v: "validSegment ''w''" "validSegment ''exercises''" "validSegment ''01.intro''"
    "validSegment ''01.problem.my_app''"
    by (simp_all add: validSegment_def)
  have i: "\<not> includesStr ''exercises'' ''__sep''" "\<not> includesStr ''01.intro'' ''__sep''"
    "\<not> includesStr ''01.problem.my_app'' ''__sep''"
    by simp_all
  have a: "absolutePath [''w''] = ''/w''"
    "absolutePath ([''w''] @ [''exercises'', ''01.intro'', ''01.problem.my_app''])
       = ''/w/exercises/01.intro/01.problem.my_app''"
    by (simp_all add: absolutePath_def)
  have n: "getAppName ''/w'' ''/w/exercises/01.intro/01.problem.my_app''
        = ''exercises__sep__01.intro__sep__01.problem.my_app''"
    by (simp add: getAppName_def sep_def)
  from name_round_trip [of "[''w'']" "[''exercises'', ''01.intro'', ''01.problem.my_app'']"] v i
  have "getFullPathFromAppName ''/w'' (getAppName ''/w'' ''/w/exercises/01.intro/01.problem.my_app'')
        = ''/w/exercises/01.intro/01.problem.my_app''"
    unfolding a by simp
  with v i n show ?thesis
    by simp
qed

text \<open>
  Claim C2 says that the round trip holds for every path under the workshop root. A
  directory named \<^verbatim>\<open>a__sep__b\<close> directly under the root \<^verbatim>\<open>/w\<close> comes back as the
  path \<^verbatim>\<open>/w/a/b\<close>.
\<close>

theorem name_round_trip_fails_on_token:
  "getFullPathFromAppName ''/w'' (getAppName ''/w'' ''/w/a__sep__b'') = ''/w/a/b''
   \<and> getFullPathFromAppName ''/w'' (getAppName ''/w'' ''/w/a__sep__b'') \<noteq> ''/w/a__sep__b''"
  by (simp add: getFullPathFromAppName_def getAppName_def sep_def path_join_def
        path_normalize_def isAbsolute_def)


section \<open>Properties of the playground sync\<close>

lemma set_getFiles:
  "set (getFiles dir fs) = {drop (length dir) q | q. q \<in> fst ` set fs \<and> strict_prefix dir q \<and> \<not> underBuild q}"
  by (auto simp: getFiles_def globby_def)

lemma getFiles_mono:
  assumes "fst ` set fs \<subseteq> fst ` set fs'"
  shows "set (getFiles dir fs) \<subseteq> set (getFiles dir fs')"
  using assms unfolding set_getFiles by blast

lemma getFiles_antimono:
  assumes "\<forall>q \<in> fst ` set fs'. strict_prefix dir q \<longrightarrow> q \<in> fst ` set fs"
  shows "set (getFiles dir fs') \<subseteq> set (getFiles dir fs)"
  using assms unfolding set_getFiles by blast
















end
